theory Spec2Isabelle
  imports Main
begin

section \<open>The lockfile linter (scripts/lint-lockfile, src/unnamed/part_000 lines 1-229)\<close>

text \<open>
  The script is one asynchronous function \<open>run\<close> and a top-level promise chain. It talks
  to the outside through helpers that are not part of the sources at hand
  (\<open>utils/commands.mjs\<close>, \<open>utils/corepack.mjs\<close>, \<open>utils/git.mjs\<close>, \<open>utils/node.mjs\<close>) and
  through the Node.js library. Every such collaborator is a field of the record \<open>env\<close>
  below; the script itself is translated line by line on top of it.
\<close>

subsection \<open>JavaScript string operations used by the script\<close>

text \<open>
  A string is the list of the bytes of its UTF-8 encoding. \<open>startsWith\<close>, \<open>includes\<close>,
  \<open>split("\n")\<close>, \<open>trim\<close> and \<open>join("\n")\<close> follow the ECMAScript definitions.
\<close>

definition startsWith :: "string \<Rightarrow> string \<Rightarrow> bool" where
  "startsWith s p = (take (length p) s = p)"

fun includes_str :: "string \<Rightarrow> string \<Rightarrow> bool" where
  "includes_str [] p = (p = [])"
| "includes_str (c # cs) p = (startsWith (c # cs) p \<or> includes_str cs p)"

fun splitLines :: "string \<Rightarrow> string list" where
  "splitLines [] = [[]]"
| "splitLines (c # cs) =
     (if c = CHR 0x0A then [] # splitLines cs
      else (case splitLines cs of
              [] \<Rightarrow> [[c]]
            | l # ls \<Rightarrow> (c # l) # ls))"

text \<open>
  \<open>String.prototype.trim\<close> strips, from both ends, the ECMAScript white space and line
  terminators: TAB, LF, VT, FF, CR and SPACE (one byte each), U+00A0 (two bytes), and
  U+1680, U+2000 to U+200A, U+2028, U+2029, U+202F, U+205F, U+3000 and U+FEFF (three
  bytes each). No encoding of one of them is the beginning or the end of another, and a
  UTF-8 string that ends with the bytes of one ends with that character.
\<close>

definition isWhiteSpace1 :: "char \<Rightarrow> bool" where
  "isWhiteSpace1 a = (a = CHR 0x09 \<or> a = CHR 0x0A \<or> a = CHR 0x0B \<or> a = CHR 0x0C
                      \<or> a = CHR 0x0D \<or> a = CHR 0x20)"

definition isWhiteSpace2 :: "char \<Rightarrow> char \<Rightarrow> bool" where
  "isWhiteSpace2 a b = (a = CHR 0xC2 \<and> b = CHR 0xA0)"

definition isWhiteSpace3 :: "char \<Rightarrow> char \<Rightarrow> char \<Rightarrow> bool" where
  "isWhiteSpace3 a b c =
     ((a = CHR 0xE1 \<and> b = CHR 0x9A \<and> c = CHR 0x80)
      \<or> (a = CHR 0xE2 \<and> b = CHR 0x80
          \<and> ((0x80 \<le> (of_char c :: nat) \<and> (of_char c :: nat) \<le> 0x8A)
              \<or> c = CHR 0xA8 \<or> c = CHR 0xA9 \<or> c = CHR 0xAF))
      \<or> (a = CHR 0xE2 \<and> b = CHR 0x81 \<and> c = CHR 0x9F)
      \<or> (a = CHR 0xE3 \<and> b = CHR 0x80 \<and> c = CHR 0x80)
      \<or> (a = CHR 0xEF \<and> b = CHR 0xBB \<and> c = CHR 0xBF))"

fun trimStart :: "string \<Rightarrow> string" where
  "trimStart (a # b # c # s) =
     (if isWhiteSpace1 a then trimStart (b # c # s)
      else if isWhiteSpace2 a b then trimStart (c # s)
      else if isWhiteSpace3 a b c then trimStart s
      else a # b # c # s)"
| "trimStart [a, b] =
     (if isWhiteSpace1 a then trimStart [b]
      else if isWhiteSpace2 a b then []
      else [a, b])"
| "trimStart [a] = (if isWhiteSpace1 a then [] else [a])"
| "trimStart [] = []"

text \<open>\<open>trimEndRev\<close> works on the reversed string: its first byte is the last of the string.\<close>

fun trimEndRev :: "string \<Rightarrow> string" where
  "trimEndRev (c # b # a # s) =
     (if isWhiteSpace1 c then trimEndRev (b # a # s)
      else if isWhiteSpace2 b c then trimEndRev (a # s)
      else if isWhiteSpace3 a b c then trimEndRev s
      else c # b # a # s)"
| "trimEndRev [c, b] =
     (if isWhiteSpace1 c then trimEndRev [b]
      else if isWhiteSpace2 b c then []
      else [c, b])"
| "trimEndRev [c] = (if isWhiteSpace1 c then [] else [c])"
| "trimEndRev [] = []"

definition trim :: "string \<Rightarrow> string" where
  "trim s = rev (trimEndRev (rev (trimStart s)))"

fun joinLines :: "string list \<Rightarrow> string" where
  "joinLines [] = []"
| "joinLines [l] = l"
| "joinLines (l # m # ls) = l @ [CHR 0x0A] @ joinLines (m # ls)"

text \<open>Decimal rendering of \<open>issues.length\<close> inside a template literal.\<close>

definition digit :: "nat \<Rightarrow> char" where
  "digit d = char_of (48 + d)"

fun showNat :: "nat \<Rightarrow> string" where
  "showNat n = (if n < 10 then [digit n] else showNat (n div 10) @ [digit (n mod 10)])"

text \<open>JavaScript truthiness of a string that may be \<open>undefined\<close> or \<open>null\<close>.\<close>

fun truthy :: "string option \<Rightarrow> bool" where
  "truthy None = False"
| "truthy (Some s) = (s \<noteq> [])"

subsection \<open>Errors, console output, external calls\<close>

text \<open>
  \<open>AssertionError m\<close> is what \<open>node:assert\<close> throws, \<open>Error m c\<close> is
  \<open>new Error(m, { cause: c })\<close>, and \<open>Rejected m\<close> is any error raised by an external
  helper (a rejected promise of the file system, of git or of npm).
\<close>

datatype error =
    AssertionError string
  | Error string error
  | Rejected string

datatype level = INFO | ERROR | WARN | DEBUG

datatype call =
    ImportMetaResolve string
  | FindPackageJSON string
  | FindNPMPackage string
  | CorepackVersion
  | LoadJSON string
  | GitStatus string
  | NpmVersion bool
  | NpmInstall string bool

text \<open>
  What the process does that can be observed, in order: a line written through the
  logger (\<open>Console level prefix args\<close> is \<open>console.<level>(LEVEL, prefix, ...args)\<close>) or a
  call of an external helper.
\<close>

datatype event =
    Console level string "string list"
  | Call call

text \<open>\<open>createLogger\<close> (utils/logging.mjs, src/unnamed/part_000 lines 247-258).\<close>

definition createLogger :: "string \<Rightarrow> level \<Rightarrow> string list \<Rightarrow> event" where
  "createLogger prefix lvl args = Console lvl (''['' @ prefix @ '']'') args"

definition logger :: "level \<Rightarrow> string list \<Rightarrow> event" where
  "logger = createLogger ''lint:lockfile''"

record options =
  warn :: bool
  skip_git :: bool

record status =
  available :: bool
  clean :: bool

text \<open>
  The collaborators of the script. \<open>'w\<close> is the state of the working tree on disk, which
  \<open>npm install --package-lock-only\<close> changes and \<open>loadJSON\<close> and \<open>gitStatus\<close> read;
  \<open>'doc\<close> is a parsed JSON document. \<open>deepStrictEqual_message actual expected message\<close>
  is the \<open>message\<close> property of the AssertionError that
  \<open>assert.deepStrictEqual(actual, expected, message)\<close> throws.
\<close>

record ('doc, 'w) env =
  cwd :: string
  import_meta_resolve :: "string \<Rightarrow> error + string"
  findPackageJSON :: "string \<Rightarrow> error + string option"
  dirname :: "string \<Rightarrow> string"
  findNPMPackage :: "string \<Rightarrow> error + string"
  corepack_version :: "string option"
  loadJSON :: "'w \<Rightarrow> string \<Rightarrow> error + 'doc"
  name_of :: "'doc \<Rightarrow> error + string"
  gitStatus :: "'w \<Rightarrow> string \<Rightarrow> error + status"
  npm_version :: "bool \<Rightarrow> error + string"
  npm_install :: "'w \<Rightarrow> string \<Rightarrow> bool \<Rightarrow> error + 'w"
  isDeepStrictEqual :: "'doc \<Rightarrow> 'doc \<Rightarrow> bool"
  deepStrictEqual_message :: "'doc \<Rightarrow> 'doc \<Rightarrow> string \<Rightarrow> string"
  stripVTControlCharacters :: "string \<Rightarrow> string"

subsection \<open>Sequencing with exceptions\<close>

text \<open>
  The mutable state of a run: the \<open>issues\<close> array of \<open>run\<close> and the trace of what the
  process has done so far. A computation returns a value or throws, and leaves a state.
\<close>

record st =
  issues :: "string list"
  events :: "event list"

type_synonym 'a comp = "st \<Rightarrow> (error + 'a) \<times> st"

definition ret :: "'a \<Rightarrow> 'a comp" where
  "ret a s = (Inr a, s)"

definition throw :: "error \<Rightarrow> 'a comp" where
  "throw e s = (Inl e, s)"

definition bindE :: "'a comp \<Rightarrow> ('a \<Rightarrow> 'b comp) \<Rightarrow> 'b comp" where
  "bindE f g s = (case f s of (Inl e, s') \<Rightarrow> (Inl e, s') | (Inr a, s') \<Rightarrow> g a s')"

definition tryCatch :: "'a comp \<Rightarrow> (error \<Rightarrow> 'a comp) \<Rightarrow> 'a comp" where
  "tryCatch f h s = (case f s of (Inl e, s') \<Rightarrow> h e s' | (Inr a, s') \<Rightarrow> (Inr a, s'))"

definition emit :: "event \<Rightarrow> unit comp" where
  "emit ev s = (Inr (), s\<lparr>events := events s @ [ev]\<rparr>)"

definition await :: "call \<Rightarrow> error + 'a \<Rightarrow> 'a comp" where
  "await c r s = (r, s\<lparr>events := events s @ [Call c]\<rparr>)"

definition push :: "string \<Rightarrow> unit comp" where
  "push message s = (Inr (), s\<lparr>issues := issues s @ [message]\<rparr>)"

text \<open>A value that evaluating an expression yields, or the error it throws.\<close>

definition await_value :: "error + 'a \<Rightarrow> 'a comp" where
  "await_value r s = (r, s)"

subsection \<open>\<open>check\<close> and \<open>checkDeep\<close> (lines 72-101)\<close>

definition check :: "options \<Rightarrow> bool \<Rightarrow> string \<Rightarrow> unit comp" where
  "check opts ok message =
     (if ok then ret ()
      else if warn opts then push message
      else throw (AssertionError message))"

definition assert_deepStrictEqual ::
  "('doc, 'w) env \<Rightarrow> 'doc \<Rightarrow> 'doc \<Rightarrow> string \<Rightarrow> unit comp" where
  "assert_deepStrictEqual env actual expected message =
     (if isDeepStrictEqual env actual expected then ret ()
      else throw (AssertionError (deepStrictEqual_message env actual expected message)))"

definition checkDeep ::
  "options \<Rightarrow> ('doc, 'w) env \<Rightarrow> 'doc \<Rightarrow> 'doc \<Rightarrow> string \<Rightarrow> unit comp" where
  "checkDeep opts env actual expected message =
     (if warn opts
      then (if \<not> isDeepStrictEqual env actual expected then push message else ret ())
      else assert_deepStrictEqual env actual expected message)"

subsection \<open>Locating the files (lines 107-118)\<close>

record paths =
  packageJSONPath :: string
  packageDir :: string
  packageLockPath :: string
  lockfileDir :: string
  isWorkspace :: bool

definition msg_not_found :: string where
  "msg_not_found =
     ''Could not find package.json in the current directory or any parent directories''"

text \<open>\<open>assert.ok(value, message)\<close> on a string that may be \<open>undefined\<close>.\<close>

definition assert_ok :: "string option \<Rightarrow> string \<Rightarrow> string comp" where
  "assert_ok v message =
     (case v of
        None \<Rightarrow> throw (AssertionError message)
      | Some p \<Rightarrow> (if truthy (Some p) then ret p else throw (AssertionError message)))"

definition locateFiles :: "('doc, 'w) env \<Rightarrow> paths comp" where
  "locateFiles env =
     bindE (await (ImportMetaResolve (cwd env)) (import_meta_resolve env (cwd env)))
       (\<lambda>resolvedPath.
     bindE (await (FindPackageJSON resolvedPath) (findPackageJSON env resolvedPath))
       (\<lambda>found.
     bindE (assert_ok found msg_not_found)
       (\<lambda>pj.
     bindE (await (FindNPMPackage (dirname env pj)) (findNPMPackage env (dirname env pj)))
       (\<lambda>pl.
     ret \<lparr> packageJSONPath = pj,
           packageDir = dirname env pj,
           packageLockPath = pl,
           lockfileDir = dirname env pl,
           isWorkspace = (dirname env pl \<noteq> dirname env pj) \<rparr>))))"

subsection \<open>Reading a snapshot (lines 124-127 and 165-168)\<close>

record 'doc snapshot =
  lockfile :: 'doc
  package :: 'doc

definition readSnapshot :: "('doc, 'w) env \<Rightarrow> 'w \<Rightarrow> paths \<Rightarrow> 'doc snapshot comp" where
  "readSnapshot env w ctx =
     bindE (await (LoadJSON (packageLockPath ctx)) (loadJSON env w (packageLockPath ctx)))
       (\<lambda>l.
     bindE (await (LoadJSON (packageJSONPath ctx)) (loadJSON env w (packageJSONPath ctx)))
       (\<lambda>p.
     ret \<lparr> lockfile = l, package = p \<rparr>))"

subsection \<open>Uncommitted changes (lines 134-150)\<close>

definition msg_skip_git :: string where
  "msg_skip_git = ''Skipping git status check''"

definition msg_git_unavailable :: string where
  "msg_git_unavailable = ''Git is not available; skipping uncommitted change detection.''"

definition msg_package_dirty :: "string \<Rightarrow> string" where
  "msg_package_dirty p = ''package.json has uncommitted changes: '' @ p"

definition msg_lockfile_dirty :: "string \<Rightarrow> string" where
  "msg_lockfile_dirty p = ''package-lock.json has uncommitted changes: '' @ p"

definition uncommittedChanges ::
  "options \<Rightarrow> ('doc, 'w) env \<Rightarrow> 'w \<Rightarrow> paths \<Rightarrow> unit comp" where
  "uncommittedChanges opts env w ctx =
     (if skip_git opts then emit (logger WARN [msg_skip_git])
      else
        bindE (await (GitStatus (packageJSONPath ctx)) (gitStatus env w (packageJSONPath ctx)))
          (\<lambda>packageStatus.
        bindE (await (GitStatus (packageLockPath ctx)) (gitStatus env w (packageLockPath ctx)))
          (\<lambda>lockfileStatus.
        if \<not> available packageStatus \<or> \<not> available lockfileStatus
        then emit (logger WARN [msg_git_unavailable])
        else
          bindE (check opts (clean packageStatus) (msg_package_dirty (packageJSONPath ctx)))
            (\<lambda>_.
          check opts (clean lockfileStatus) (msg_lockfile_dirty (packageLockPath ctx))))))"

subsection \<open>Regenerating the lockfile (lines 154-163)\<close>

definition regenerate :: "('doc, 'w) env \<Rightarrow> 'w \<Rightarrow> paths \<Rightarrow> bool \<Rightarrow> 'w comp" where
  "regenerate env w ctx useCorepack =
     bindE (await (NpmVersion useCorepack) (npm_version env useCorepack))
       (\<lambda>npmVersion.
     bindE (emit (logger INFO [''Detected npm version: '' @ npmVersion]))
       (\<lambda>_.
     bindE (await (NpmInstall (lockfileDir ctx) useCorepack)
              (npm_install env w (lockfileDir ctx) useCorepack))
       (\<lambda>w'.
     bindE (emit (logger INFO [''npm install complete.'']))
       (\<lambda>_.
     ret w'))))"

subsection \<open>Comparing the snapshots (lines 172-205)\<close>

definition msg_manifest_modified :: "string \<Rightarrow> string" where
  "msg_manifest_modified p =
     ''package.json was unexpectedly modified during lockfile check: '' @ p"

definition msg_out_of_sync :: string where
  "msg_out_of_sync = ''package-lock.json is out of sync with package.json''"

definition msg_peer_differences :: string where
  "msg_peer_differences =
     ''Optional peer dependency differences detected. Run `npm install` to update the lockfile.''"

text \<open>Lines 191-196: the lines of the assertion's message that count as drift.\<close>

definition driftLines :: "('doc, 'w) env \<Rightarrow> string \<Rightarrow> string list" where
  "driftLines env message =
     filter (\<lambda>line. \<not> includes_str line ''peer:'')
       (filter (\<lambda>line. \<not> startsWith line ''+ actual - expected'')
         (filter (\<lambda>line. startsWith line ''-'' \<or> startsWith line ''+'')
           (map trim (splitLines (stripVTControlCharacters env message)))))"

text \<open>Lines 184-205: the \<open>catch\<close> clause around \<open>checkDeep\<close>.\<close>

definition msg_drift :: "string list \<Rightarrow> string" where
  "msg_drift ls = ''Lockfile drift detected:'' @ [CHR 0x0A] @ joinLines ls"

definition onCheckDeepError :: "('doc, 'w) env \<Rightarrow> error \<Rightarrow> unit comp" where
  "onCheckDeepError env err =
     (case err of
        AssertionError message \<Rightarrow>
          (if driftLines env message \<noteq> []
           then throw (Error (msg_drift (driftLines env message)) err)
           else emit (logger WARN [msg_peer_differences]))
      | _ \<Rightarrow> throw err)"

definition compareSnapshots ::
  "options \<Rightarrow> ('doc, 'w) env \<Rightarrow> paths \<Rightarrow> 'doc snapshot \<Rightarrow> 'doc snapshot \<Rightarrow> unit comp" where
  "compareSnapshots opts env ctx expected actual =
     bindE (assert_deepStrictEqual env (package actual) (package expected)
              (msg_manifest_modified (packageJSONPath ctx)))
       (\<lambda>_.
     tryCatch (checkDeep opts env (lockfile actual) (lockfile expected) msg_out_of_sync)
       (onCheckDeepError env))"

subsection \<open>\<open>run\<close> (lines 61-208)\<close>

text \<open>\<open>value || fallback\<close> on a string that may be \<open>null\<close>.\<close>

definition orElse :: "string option \<Rightarrow> string \<Rightarrow> string" where
  "orElse v fallback = (case v of None \<Rightarrow> fallback | Some s \<Rightarrow> (if s \<noteq> [] then s else fallback))"

definition getIssues :: "string list comp" where
  "getIssues s = (Inr (issues s), s)"

definition run :: "options \<Rightarrow> ('doc, 'w) env \<Rightarrow> 'w \<Rightarrow> string list comp" where
  "run opts env w =
     bindE (emit (logger INFO [''Linting lockfile integrity in: '' @ cwd env]))
       (\<lambda>_.
     bindE (locateFiles env)
       (\<lambda>ctx.
     bindE (await CorepackVersion (Inr (corepack_version env)))
       (\<lambda>corepackVersion.
     bindE (emit (logger INFO [''corepack'', orElse corepackVersion ''disabled'']))
       (\<lambda>_.
     bindE (readSnapshot env w ctx)
       (\<lambda>expected.
     bindE (await_value (name_of env (package expected)))
       (\<lambda>name.
     bindE (emit (logger INFO
              [''package.json: '' @ packageJSONPath ctx @ '' ('' @ name @ '')'']))
       (\<lambda>_.
     bindE (emit (logger INFO
              [''package-lock.json: '' @ packageLockPath ctx
                 @ (if isWorkspace ctx then '' (workspace root)'' else [])]))
       (\<lambda>_.
     bindE (uncommittedChanges opts env w ctx)
       (\<lambda>_.
     bindE (regenerate env w ctx (truthy corepackVersion))
       (\<lambda>w'.
     bindE (readSnapshot env w' ctx)
       (\<lambda>actual.
     bindE (compareSnapshots opts env ctx expected actual)
       (\<lambda>_.
     getIssues))))))))))))"

subsection \<open>The top-level promise chain (lines 210-229)\<close>

definition EXIT_DRIFT :: nat where
  "EXIT_DRIFT = 2"

text \<open>
  How the process ends: \<open>process.exit(code)\<close> was called, the promise chain settled and the
  process ended on its own, or the error was handed to \<open>reportAndExit\<close>.
\<close>

datatype outcome =
    ProcessExit nat
  | Completed
  | ReportAndExit error

definition initial :: st where
  "initial = \<lparr> issues = [], events = [] \<rparr>"

definition msg_detected :: "nat \<Rightarrow> string" where
  "msg_detected n =
     [CHR 0xE2, CHR 0x9A, CHR 0xA0, CHR 0xEF, CHR 0xB8, CHR 0x8F] @ ''  '' @ showNat n
       @ '' issue(s) detected:''"

definition msg_issue :: "string \<Rightarrow> string" where
  "msg_issue issue = ''  - '' @ issue"

definition msg_regenerated :: string where
  "msg_regenerated =
     ''The lockfile on disk has been regenerated. Review and commit the changes.''"

definition msg_in_sync :: string where
  "msg_in_sync = [CHR 0xE2, CHR 0x9C, CHR 0x85] @ '' Lockfile is in sync.''"

text \<open>Lines 211-228: the handler of the fulfilled promise.\<close>

definition report :: "options \<Rightarrow> string list \<Rightarrow> outcome \<times> event list" where
  "report opts iss =
     (if iss \<noteq> []
      then
        (if warn opts
         then (ProcessExit EXIT_DRIFT,
               logger WARN [msg_detected (length iss)]
                 # map (\<lambda>issue. logger WARN [msg_issue issue]) iss
                 @ [logger WARN [msg_regenerated]])
         else (Completed,
               logger WARN [msg_detected (length iss)]
                 # map (\<lambda>issue. logger WARN [msg_issue issue]) iss))
      else (Completed, [logger INFO [msg_in_sync]]))"

text \<open>
  The whole script: the outcome and everything the process did, in order. When \<open>run\<close>
  throws, the error goes to \<open>reportAndExit(error, logger)\<close>.
\<close>

definition main :: "options \<Rightarrow> ('doc, 'w) env \<Rightarrow> 'w \<Rightarrow> outcome \<times> event list" where
  "main opts env w =
     (case run opts env w initial of
        (Inr iss, s) \<Rightarrow> (fst (report opts iss), events s @ snd (report opts iss))
      | (Inl err, s) \<Rightarrow> (ReportAndExit err, events s))"

text \<open>
  Modelled from the spec: \<open>reportAndExit\<close> (utils/commands.mjs) is not among the sources.
  The specification (sections 4.6, 6 and 7) gives every fatal error the generic exit
  code 1; a process that ends on its own exits with 0.
\<close>

definition exitCode :: "outcome \<Rightarrow> nat" where
  "exitCode out = (case out of ProcessExit c \<Rightarrow> c | Completed \<Rightarrow> 0 | ReportAndExit _ \<Rightarrow> 1)"

subsection \<open>Runs in which every external call succeeds\<close>

text \<open>
  The values the collaborators hand back during one run: the resolved paths, the two
  snapshots, the git status of both files and the working tree that npm leaves.
\<close>

record ('doc, 'w) answers =
  resolvedPath :: string
  manifestPath :: string
  lockPath :: string
  expectedLockfile :: 'doc
  expectedPackage :: 'doc
  packageName :: string
  packageStatus :: status
  lockfileStatus :: status
  npmVersion :: string
  regenerated :: 'w
  actualLockfile :: 'doc
  actualPackage :: 'doc

text \<open>
  \<open>answered opts env w a\<close>: started in the working tree \<open>w\<close>, every call that \<open>run\<close> makes
  succeeds and returns the value recorded in \<open>a\<close>. The status queries are only
  constrained when the run makes them.
\<close>

definition answered ::
  "options \<Rightarrow> ('doc, 'w) env \<Rightarrow> 'w \<Rightarrow> ('doc, 'w) answers \<Rightarrow> bool" where
  "answered opts env w a =
     (import_meta_resolve env (cwd env) = Inr (resolvedPath a)
      \<and> findPackageJSON env (resolvedPath a) = Inr (Some (manifestPath a))
      \<and> manifestPath a \<noteq> []
      \<and> findNPMPackage env (dirname env (manifestPath a)) = Inr (lockPath a)
      \<and> loadJSON env w (lockPath a) = Inr (expectedLockfile a)
      \<and> loadJSON env w (manifestPath a) = Inr (expectedPackage a)
      \<and> name_of env (expectedPackage a) = Inr (packageName a)
      \<and> (skip_git opts
           \<or> (gitStatus env w (manifestPath a) = Inr (packageStatus a)
              \<and> gitStatus env w (lockPath a) = Inr (lockfileStatus a)))
      \<and> npm_version env (truthy (corepack_version env)) = Inr (npmVersion a)
      \<and> npm_install env w (dirname env (lockPath a)) (truthy (corepack_version env))
            = Inr (regenerated a)
      \<and> loadJSON env (regenerated a) (lockPath a) = Inr (actualLockfile a)
      \<and> loadJSON env (regenerated a) (manifestPath a) = Inr (actualPackage a))"

text \<open>Whether the preflight guard reaches its two checks.\<close>

definition guardChecks :: "options \<Rightarrow> ('doc, 'w) answers \<Rightarrow> bool" where
  "guardChecks opts a =
     (\<not> skip_git opts \<and> available (packageStatus a) \<and> available (lockfileStatus a))"

text \<open>The path context that \<open>locateFiles\<close> computes from these answers.\<close>

definition pathsOf :: "('doc, 'w) env \<Rightarrow> ('doc, 'w) answers \<Rightarrow> paths" where
  "pathsOf env a =
     \<lparr> packageJSONPath = manifestPath a,
       packageDir = dirname env (manifestPath a),
       packageLockPath = lockPath a,
       lockfileDir = dirname env (lockPath a),
       isWorkspace = (dirname env (lockPath a) \<noteq> dirname env (manifestPath a)) \<rparr>"

text \<open>
  The issues that the preflight guard collects in warn mode, and what the guard does
  that can be observed.
\<close>

definition guardIssues :: "options \<Rightarrow> ('doc, 'w) answers \<Rightarrow> string list" where
  "guardIssues opts a =
     (if guardChecks opts a
      then (if clean (packageStatus a) then [] else [msg_package_dirty (manifestPath a)])
           @ (if clean (lockfileStatus a) then [] else [msg_lockfile_dirty (lockPath a)])
      else [])"


definition guardEvents :: "options \<Rightarrow> ('doc, 'w) answers \<Rightarrow> event list" where
  "guardEvents opts a =
     (if skip_git opts then [logger WARN [msg_skip_git]]
      else [Call (GitStatus (manifestPath a)), Call (GitStatus (lockPath a))]
           @ (if available (packageStatus a) \<and> available (lockfileStatus a) then []
              else [logger WARN [msg_git_unavailable]]))"

text \<open>What a run does before the guard, and between the guard and the comparison.\<close>

definition preamble :: "('doc, 'w) env \<Rightarrow> ('doc, 'w) answers \<Rightarrow> event list" where
  "preamble env a =
     [logger INFO [''Linting lockfile integrity in: '' @ cwd env],
      Call (ImportMetaResolve (cwd env)),
      Call (FindPackageJSON (resolvedPath a)),
      Call (FindNPMPackage (dirname env (manifestPath a))),
      Call CorepackVersion,
      logger INFO [''corepack'', orElse (corepack_version env) ''disabled''],
      Call (LoadJSON (lockPath a)),
      Call (LoadJSON (manifestPath a)),
      logger INFO [''package.json: '' @ manifestPath a @ '' ('' @ packageName a @ '')''],
      logger INFO [''package-lock.json: '' @ lockPath a
         @ (if dirname env (lockPath a) \<noteq> dirname env (manifestPath a)
            then '' (workspace root)'' else [])]]"

definition regenEvents :: "('doc, 'w) env \<Rightarrow> ('doc, 'w) answers \<Rightarrow> event list" where
  "regenEvents env a =
     [Call (NpmVersion (truthy (corepack_version env))),
      logger INFO [''Detected npm version: '' @ npmVersion a],
      Call (NpmInstall (dirname env (lockPath a)) (truthy (corepack_version env))),
      logger INFO [''npm install complete.''],
      Call (LoadJSON (lockPath a)),
      Call (LoadJSON (manifestPath a))]"

subsection \<open>Invariants of the trace and of the issue list\<close>

text \<open>
  \<open>keeps P f\<close>: the computation \<open>f\<close> leaves a state that satisfies \<open>P\<close> when it starts in
  one, whether it returns or throws. \<open>traceInv okE okI\<close> holds of a state all of whose
  events satisfy \<open>okE\<close> and all of whose issues satisfy \<open>okI\<close>.
\<close>

definition keeps :: "(st \<Rightarrow> bool) \<Rightarrow> 'a comp \<Rightarrow> bool" where
  "keeps P f = (\<forall>s. P s \<longrightarrow> P (snd (f s)))"

definition traceInv :: "(event \<Rightarrow> bool) \<Rightarrow> (string \<Rightarrow> bool) \<Rightarrow> st \<Rightarrow> bool" where
  "traceInv okE okI s = (list_all okE (events s) \<and> list_all okI (issues s))"

fun isGitStatus :: "event \<Rightarrow> bool" where
  "isGitStatus (Call (GitStatus p)) = True"
| "isGitStatus _ = False"

text \<open>The lines that \<open>run\<close> itself writes through \<open>logger.warn\<close>.\<close>

fun runWarning :: "event \<Rightarrow> bool" where
  "runWarning (Console WARN p args) =
     (args = [msg_skip_git] \<or> args = [msg_git_unavailable] \<or> args = [msg_peer_differences])"
| "runWarning _ = True"

subsection \<open>A concrete repository\<close>

text \<open>
  A workspace member \<open>pkgs/foo\<close> whose lockfile lives at the repository root. The
  working tree is \<open>False\<close> before and \<open>True\<close> after \<open>npm install --package-lock-only\<close>;
  a document is a list of properties. The parameters are the git status of the two
  files, the lockfile and the manifest that npm leaves, and the message with which
  \<open>assert.deepStrictEqual\<close> reports a difference.
\<close>

type_synonym doc = "(string \<times> string) list"

definition manifest0 :: doc where
  "manifest0 = [(''name'', ''foo''), (''version'', ''1.0.0'')]"

definition lock0 :: doc where
  "lock0 = [(''lodash'', ''4.17.20''), (''zod'', ''3.0.0'')]"

definition repo ::
  "status \<Rightarrow> status \<Rightarrow> doc \<Rightarrow> doc \<Rightarrow> string \<Rightarrow> (doc, bool) env" where
  "repo ps ls lock1 manifest1 diff =
     \<lparr> cwd = ''pkgs/foo'',
       import_meta_resolve = (\<lambda>p. Inr (''file:///repo/'' @ p)),
       findPackageJSON = (\<lambda>p. Inr (Some ''/repo/pkgs/foo/package.json'')),
       dirname = (\<lambda>p. if p = ''/repo/pkgs/foo/package.json'' then ''/repo/pkgs/foo''
                       else ''/repo''),
       findNPMPackage = (\<lambda>d. Inr ''/repo/package-lock.json''),
       corepack_version = None,
       loadJSON = (\<lambda>w p. Inr (if p = ''/repo/package-lock.json''
                                then (if w then lock1 else lock0)
                                else (if w then manifest1 else manifest0))),
       name_of = (\<lambda>d. Inr ''foo''),
       gitStatus = (\<lambda>w p. Inr (if p = ''/repo/pkgs/foo/package.json'' then ps else ls)),
       npm_version = (\<lambda>c. Inr ''11.6.2''),
       npm_install = (\<lambda>w d c. Inr True),
       isDeepStrictEqual = (\<lambda>a b. a = b),
       deepStrictEqual_message = (\<lambda>a e m. m @ [CHR 0x0A] @ diff),
       stripVTControlCharacters = (\<lambda>s. s) \<rparr>"

definition repoAnswers :: "status \<Rightarrow> status \<Rightarrow> doc \<Rightarrow> doc \<Rightarrow> (doc, bool) answers" where
  "repoAnswers ps ls lock1 manifest1 =
     \<lparr> resolvedPath = ''file:///repo/pkgs/foo'',
       manifestPath = ''/repo/pkgs/foo/package.json'',
       lockPath = ''/repo/package-lock.json'',
       expectedLockfile = lock0,
       expectedPackage = manifest0,
       packageName = ''foo'',
       packageStatus = ps,
       lockfileStatus = ls,
       npmVersion = ''11.6.2'',
       regenerated = True,
       actualLockfile = lock1,
       actualPackage = manifest1 \<rparr>"

definition tracked :: status where
  "tracked = \<lparr> available = True, clean = True \<rparr>"

definition dirty :: status where
  "dirty = \<lparr> available = True, clean = False \<rparr>"

definition untracked :: status where
  "untracked = \<lparr> available = False, clean = False \<rparr>"

definition strict :: options where
  "strict = \<lparr> warn = False, skip_git = False \<rparr>"

definition warnOnly :: options where
  "warnOnly = \<lparr> warn = True, skip_git = False \<rparr>"

text \<open>Regeneration bumps lodash: the difference as \<open>node:assert\<close> prints it.\<close>

definition lockBumped :: doc where
  "lockBumped = [(''lodash'', ''4.17.21''), (''zod'', ''3.0.0'')]"

definition removedLine :: string where
  "removedLine = ''-   lodash: '4.17.20',''"

definition addedLine :: string where
  "addedLine = ''+   lodash: '4.17.21',''"

definition diffBumped :: string where
  "diffBumped =
     ''+ actual - expected'' @ [CHR 0x0A]
     @ [CHR 0x0A]
     @ ''  {'' @ [CHR 0x0A]
     @ addedLine @ [CHR 0x0A]
     @ removedLine @ [CHR 0x0A]
     @ ''    zod: '3.0.0' '' @ [CHR 0x0A]
     @ ''  }'' @ [CHR 0x0A]"

text \<open>Regeneration only adds an optional-peer marker.\<close>

definition lockPeer :: doc where
  "lockPeer = [(''lodash'', ''4.17.20''), (''zod'', ''3.0.0''), (''peer'', ''true'')]"

definition diffPeer :: string where
  "diffPeer =
     ''+ actual - expected'' @ [CHR 0x0A]
     @ [CHR 0x0A]
     @ ''  {'' @ [CHR 0x0A]
     @ ''    lodash: '4.17.20','' @ [CHR 0x0A]
     @ ''    zod: '3.0.0','' @ [CHR 0x0A]
     @ ''+   peer: true'' @ [CHR 0x0A]
     @ ''  }'' @ [CHR 0x0A]"

text \<open>Regeneration rewrites the manifest.\<close>

definition manifestChanged :: doc where
  "manifestChanged = [(''name'', ''foo''), (''version'', ''1.0.1'')]"

text \<open>The same repository without any \<open>package.json\<close> up to the root.\<close>

definition noManifest :: "(doc, bool) env" where
  "noManifest = (repo tracked tracked lock0 manifest0 diffBumped)
                  \<lparr> findPackageJSON := (\<lambda>p. Inr None) \<rparr>"

definition warnSkip :: options where
  "warnSkip = \<lparr> warn = True, skip_git = True \<rparr>"

section \<open>Properties\<close>

subsection \<open>Sequencing\<close>

lemma bindE_ret [simp]: "bindE (ret a) g s = g a s"
  by (simp add: bindE_def ret_def)

lemma bindE_throw [simp]: "bindE (throw e) g s = (Inl e, s)"
  by (simp add: bindE_def throw_def)

lemma bindE_emit [simp]: "bindE (emit ev) g s = g () (s\<lparr>events := events s @ [ev]\<rparr>)"
  by (simp add: bindE_def emit_def)

lemma bindE_push [simp]: "bindE (push m) g s = g () (s\<lparr>issues := issues s @ [m]\<rparr>)"
  by (simp add: bindE_def push_def)

lemma bindE_await_Inr [simp]:
  "bindE (await c (Inr a)) g s = g a (s\<lparr>events := events s @ [Call c]\<rparr>)"
  by (simp add: bindE_def await_def)

lemma bindE_await_Inl [simp]:
  "bindE (await c (Inl e)) g s = (Inl e, s\<lparr>events := events s @ [Call c]\<rparr>)"
  by (simp add: bindE_def await_def)

lemma bindE_await_value_Inr [simp]: "bindE (await_value (Inr a)) g s = g a s"
  by (simp add: bindE_def await_value_def)

lemma bindE_await_value_Inl [simp]: "bindE (await_value (Inl e)) g s = (Inl e, s)"
  by (simp add: bindE_def await_value_def)

lemma bindE_assoc: "bindE (bindE f g) h s = bindE f (\<lambda>a. bindE (g a) h) s"
  by (simp add: bindE_def split: prod.splits sum.splits)

lemma st_events_update: "s\<lparr>events := e\<rparr> = \<lparr> issues = issues s, events = e \<rparr>"
  by simp

lemma st_issues_update: "s\<lparr>issues := i\<rparr> = \<lparr> issues = i, events = events s \<rparr>"
  by simp

lemmas st_update = st_events_update st_issues_update

subsection \<open>The stages of \<open>run\<close>\<close>

lemma pathsOf_sel:
  "packageJSONPath (pathsOf env a) = manifestPath a"
  "packageDir (pathsOf env a) = dirname env (manifestPath a)"
  "packageLockPath (pathsOf env a) = lockPath a"
  "lockfileDir (pathsOf env a) = dirname env (lockPath a)"
  "isWorkspace (pathsOf env a) = (dirname env (lockPath a) \<noteq> dirname env (manifestPath a))"
  by (simp_all add: pathsOf_def)

lemma locateFiles_answered:
  assumes "answered opts env w a"
  shows "bindE (locateFiles env) k s
       = k (pathsOf env a)
           (s\<lparr>events := events s @ [Call (ImportMetaResolve (cwd env)),
                                    Call (FindPackageJSON (resolvedPath a)),
                                    Call (FindNPMPackage (dirname env (manifestPath a)))]\<rparr>)"
  using assms
  by (simp add: answered_def locateFiles_def bindE_assoc assert_ok_def pathsOf_def)

lemma readSnapshot_expected:
  assumes "answered opts env w a"
  shows "bindE (readSnapshot env w (pathsOf env a)) k s
       = k \<lparr> lockfile = expectedLockfile a, package = expectedPackage a \<rparr>
           (s\<lparr>events := events s @ [Call (LoadJSON (lockPath a)),
                                    Call (LoadJSON (manifestPath a))]\<rparr>)"
  using assms
  by (simp add: answered_def readSnapshot_def bindE_assoc pathsOf_def)

lemma readSnapshot_actual:
  assumes "answered opts env w a"
  shows "bindE (readSnapshot env (regenerated a) (pathsOf env a)) k s
       = k \<lparr> lockfile = actualLockfile a, package = actualPackage a \<rparr>
           (s\<lparr>events := events s @ [Call (LoadJSON (lockPath a)),
                                    Call (LoadJSON (manifestPath a))]\<rparr>)"
  using assms
  by (simp add: answered_def readSnapshot_def bindE_assoc pathsOf_def)

lemma regenerate_answered:
  assumes "answered opts env w a"
  shows "bindE (regenerate env w (pathsOf env a) (truthy (corepack_version env))) k s
       = k (regenerated a)
           (s\<lparr>events := events s @
               [Call (NpmVersion (truthy (corepack_version env))),
                logger INFO [''Detected npm version: '' @ npmVersion a],
                Call (NpmInstall (dirname env (lockPath a)) (truthy (corepack_version env))),
                logger INFO [''npm install complete.'']]\<rparr>)"
  using assms
  by (simp add: answered_def regenerate_def bindE_assoc pathsOf_def)

lemma uncommittedChanges_skip:
  assumes "skip_git opts"
  shows "bindE (uncommittedChanges opts env w ctx) k s
       = k () (s\<lparr>events := events s @ [logger WARN [msg_skip_git]]\<rparr>)"
  using assms by (simp add: uncommittedChanges_def)

lemma uncommittedChanges_answered:
  assumes "answered opts env w a" and "\<not> skip_git opts"
  shows "bindE (uncommittedChanges opts env w (pathsOf env a)) k s
       = (if \<not> available (packageStatus a) \<or> \<not> available (lockfileStatus a)
          then k () (s\<lparr>events := events s @ [Call (GitStatus (manifestPath a)),
                       Call (GitStatus (lockPath a)), logger WARN [msg_git_unavailable]]\<rparr>)
          else bindE (check opts (clean (packageStatus a)) (msg_package_dirty (manifestPath a)))
                 (\<lambda>_. bindE (check opts (clean (lockfileStatus a))
                                (msg_lockfile_dirty (lockPath a))) k)
                 (s\<lparr>events := events s @ [Call (GitStatus (manifestPath a)),
                       Call (GitStatus (lockPath a))]\<rparr>))"
  using assms
  by (simp add: answered_def uncommittedChanges_def bindE_assoc pathsOf_def)

lemma uncommittedChanges_warn:
  assumes "answered opts env w a" and "warn opts"
  shows "bindE (uncommittedChanges opts env w (pathsOf env a)) k s
       = k () \<lparr> issues = issues s @ guardIssues opts a,
                 events = events s @ guardEvents opts a \<rparr>"
proof (cases "skip_git opts")
  case True
  then show ?thesis
    by (simp add: uncommittedChanges_skip guardIssues_def guardChecks_def guardEvents_def
          st_update)
next
  case False
  show ?thesis
    using assms(2) False
    by (simp add: uncommittedChanges_answered[OF assms(1) False] guardIssues_def
          guardChecks_def check_def guardEvents_def st_update)
qed

lemma uncommittedChanges_strict:
  assumes "answered opts env w a" and "\<not> warn opts"
  shows "bindE (uncommittedChanges opts env w (pathsOf env a)) k s
       = (if guardChecks opts a \<and> \<not> clean (packageStatus a)
          then (Inl (AssertionError (msg_package_dirty (manifestPath a))),
                s\<lparr>events := events s @ guardEvents opts a\<rparr>)
          else if guardChecks opts a \<and> \<not> clean (lockfileStatus a)
          then (Inl (AssertionError (msg_lockfile_dirty (lockPath a))),
                s\<lparr>events := events s @ guardEvents opts a\<rparr>)
          else k () (s\<lparr>events := events s @ guardEvents opts a\<rparr>))"
proof (cases "skip_git opts")
  case True
  then show ?thesis
    by (simp add: uncommittedChanges_skip guardChecks_def guardEvents_def)
next
  case False
  show ?thesis
    using assms(2) False
    by (simp add: uncommittedChanges_answered[OF assms(1) False]
          guardChecks_def check_def guardEvents_def)
qed

lemma compareSnapshots_manifest:
  assumes "\<not> isDeepStrictEqual env (package actual) (package expected)"
  shows "bindE (compareSnapshots opts env ctx expected actual) k s
       = (Inl (AssertionError (deepStrictEqual_message env (package actual) (package expected)
                 (msg_manifest_modified (packageJSONPath ctx)))), s)"
  using assms by (simp add: compareSnapshots_def assert_deepStrictEqual_def bindE_assoc)

lemma compareSnapshots_warn:
  assumes "isDeepStrictEqual env (package actual) (package expected)" and "warn opts"
  shows "bindE (compareSnapshots opts env ctx expected actual) k s
       = k () (s\<lparr>issues := issues s
                 @ (if isDeepStrictEqual env (lockfile actual) (lockfile expected) then []
                    else [msg_out_of_sync])\<rparr>)"
  using assms
  by (simp add: compareSnapshots_def assert_deepStrictEqual_def tryCatch_def checkDeep_def
        push_def ret_def bindE_def)

lemma compareSnapshots_strict:
  assumes "isDeepStrictEqual env (package actual) (package expected)" and "\<not> warn opts"
  shows "bindE (compareSnapshots opts env ctx expected actual) k s
       = (if isDeepStrictEqual env (lockfile actual) (lockfile expected) then k () s
          else if driftLines env (deepStrictEqual_message env (lockfile actual)
                    (lockfile expected) msg_out_of_sync) \<noteq> []
          then (Inl (Error (msg_drift (driftLines env (deepStrictEqual_message env
                       (lockfile actual) (lockfile expected) msg_out_of_sync)))
                  (AssertionError (deepStrictEqual_message env (lockfile actual)
                       (lockfile expected) msg_out_of_sync))), s)
          else k () (s\<lparr>events := events s @ [logger WARN [msg_peer_differences]]\<rparr>))"
  using assms
  by (simp add: compareSnapshots_def assert_deepStrictEqual_def tryCatch_def checkDeep_def
        onCheckDeepError_def throw_def emit_def ret_def bindE_def)

subsection \<open>Runs whose calls all succeed\<close>

lemma run_answered_prefix:
  assumes "answered opts env w a"
  shows "run opts env w initial
       = bindE (uncommittedChanges opts env w (pathsOf env a))
           (\<lambda>_. bindE (regenerate env w (pathsOf env a) (truthy (corepack_version env)))
           (\<lambda>w'. bindE (readSnapshot env w' (pathsOf env a))
           (\<lambda>actual. bindE (compareSnapshots opts env (pathsOf env a)
                \<lparr> lockfile = expectedLockfile a, package = expectedPackage a \<rparr> actual)
           (\<lambda>_. getIssues))))
           \<lparr> issues = [], events = preamble env a \<rparr>"
proof -
  have n: "name_of env (expectedPackage a) = Inr (packageName a)"
    using assms by (simp add: answered_def)
  have p: "packageJSONPath (pathsOf env a) = manifestPath a"
          "packageLockPath (pathsOf env a) = lockPath a"
          "isWorkspace (pathsOf env a) = (dirname env (lockPath a) \<noteq> dirname env (manifestPath a))"
    by (simp_all add: pathsOf_def)
  show ?thesis
    unfolding run_def
    by (simp add: locateFiles_answered[OF assms] readSnapshot_expected[OF assms] n p
          initial_def preamble_def)
qed

lemma run_warn:
  assumes "answered opts env w a" and "warn opts"
    and "isDeepStrictEqual env (actualPackage a) (expectedPackage a)"
  shows "run opts env w initial
       = (Inr (guardIssues opts a
               @ (if isDeepStrictEqual env (actualLockfile a) (expectedLockfile a) then []
                  else [msg_out_of_sync])),
          \<lparr> issues = guardIssues opts a
               @ (if isDeepStrictEqual env (actualLockfile a) (expectedLockfile a) then []
                  else [msg_out_of_sync]),
            events = preamble env a @ guardEvents opts a @ regenEvents env a \<rparr>)"
  unfolding run_answered_prefix[OF assms(1)]
  using assms(2,3)
  by (simp add: uncommittedChanges_warn[OF assms(1,2)] regenerate_answered[OF assms(1)]
        readSnapshot_actual[OF assms(1)] compareSnapshots_warn getIssues_def regenEvents_def
        st_update)

lemma run_manifest_warn:
  assumes "answered opts env w a" and "warn opts"
    and "\<not> isDeepStrictEqual env (actualPackage a) (expectedPackage a)"
  shows "run opts env w initial
       = (Inl (AssertionError (deepStrictEqual_message env (actualPackage a) (expectedPackage a)
                 (msg_manifest_modified (manifestPath a)))),
          \<lparr> issues = guardIssues opts a,
            events = preamble env a @ guardEvents opts a @ regenEvents env a \<rparr>)"
  unfolding run_answered_prefix[OF assms(1)]
  using assms(2,3)
  by (simp add: uncommittedChanges_warn[OF assms(1,2)] regenerate_answered[OF assms(1)]
        readSnapshot_actual[OF assms(1)] compareSnapshots_manifest regenEvents_def pathsOf_sel
        st_update)

subsection \<open>Invariants\<close>

lemma keeps_ret: "keeps P (ret a)"
  by (simp add: keeps_def ret_def)

lemma keeps_throw: "keeps P (throw e)"
  by (simp add: keeps_def throw_def)

lemma keeps_await_value: "keeps P (await_value r)"
  by (simp add: keeps_def await_value_def)

lemma keeps_getIssues: "keeps P getIssues"
  by (simp add: keeps_def getIssues_def)

lemma keeps_bindE:
  assumes "keeps P f" and "\<And>a. keeps P (g a)"
  shows "keeps P (bindE f g)"
  unfolding keeps_def
proof (intro allI impI)
  fix s assume P: "P s"
  obtain r s' where fs: "f s = (r, s')" by (cases "f s")
  from assms(1) P fs have P': "P s'" by (auto simp: keeps_def)
  show "P (snd (bindE f g s))"
  proof (cases r)
    case (Inl e)
    with fs P' show ?thesis by (simp add: bindE_def)
  next
    case (Inr a)
    with fs P' assms(2)[of a] show ?thesis by (simp add: bindE_def keeps_def)
  qed
qed

lemma keeps_tryCatch:
  assumes "keeps P f" and "\<And>e. keeps P (h e)"
  shows "keeps P (tryCatch f h)"
  unfolding keeps_def
proof (intro allI impI)
  fix s assume P: "P s"
  obtain r s' where fs: "f s = (r, s')" by (cases "f s")
  from assms(1) P fs have P': "P s'" by (auto simp: keeps_def)
  show "P (snd (tryCatch f h s))"
  proof (cases r)
    case (Inl e)
    with fs P' assms(2)[of e] show ?thesis by (simp add: tryCatch_def keeps_def)
  next
    case (Inr a)
    with fs P' show ?thesis by (simp add: tryCatch_def)
  qed
qed

lemma keeps_if:
  assumes "b \<Longrightarrow> keeps P f" and "\<not> b \<Longrightarrow> keeps P g"
  shows "keeps P (if b then f else g)"
  using assms by simp

lemma keeps_emit: "okE ev \<Longrightarrow> keeps (traceInv okE okI) (emit ev)"
  by (simp add: keeps_def traceInv_def emit_def)

lemma keeps_await: "okE (Call c) \<Longrightarrow> keeps (traceInv okE okI) (await c r)"
  by (simp add: keeps_def traceInv_def await_def)

lemma keeps_push: "okI m \<Longrightarrow> keeps (traceInv okE okI) (push m)"
  by (simp add: keeps_def traceInv_def push_def)

lemmas keeps_intros =
  keeps_bindE keeps_tryCatch keeps_if keeps_ret keeps_throw keeps_await_value keeps_getIssues

lemma keeps_assert_deepStrictEqual: "keeps P (assert_deepStrictEqual env a e m)"
  by (simp add: assert_deepStrictEqual_def keeps_ret keeps_throw)

lemma keeps_check:
  assumes "warn opts \<Longrightarrow> \<not> ok \<Longrightarrow> okI m"
  shows "keeps (traceInv okE okI) (check opts ok m)"
  using assms by (simp add: check_def keeps_ret keeps_throw keeps_push)

lemma keeps_checkDeep:
  assumes "okI m"
  shows "keeps (traceInv okE okI) (checkDeep opts env a e m)"
  using assms
  by (simp add: checkDeep_def keeps_ret keeps_push keeps_assert_deepStrictEqual)

lemma keeps_locateFiles:
  assumes "\<And>c. \<not> isGitStatus (Call c) \<Longrightarrow> okE (Call c)"
  shows "keeps (traceInv okE okI) (locateFiles env)"
  unfolding locateFiles_def assert_ok_def
  by (intro keeps_intros keeps_await assms; simp add: keeps_ret keeps_throw split: option.split)

lemma keeps_readSnapshot:
  assumes "\<And>c. \<not> isGitStatus (Call c) \<Longrightarrow> okE (Call c)"
  shows "keeps (traceInv okE okI) (readSnapshot env w ctx)"
  unfolding readSnapshot_def
  by (intro keeps_intros keeps_await assms; simp)

lemma keeps_regenerate:
  assumes "\<And>c. \<not> isGitStatus (Call c) \<Longrightarrow> okE (Call c)"
    and "\<And>args. okE (logger INFO args)"
  shows "keeps (traceInv okE okI) (regenerate env w ctx u)"
  unfolding regenerate_def
  by (intro keeps_intros keeps_await keeps_emit assms; simp)

lemma keeps_compareSnapshots:
  assumes "okE (logger WARN [msg_peer_differences])" and "okI msg_out_of_sync"
  shows "keeps (traceInv okE okI) (compareSnapshots opts env ctx ex ac)"
  unfolding compareSnapshots_def onCheckDeepError_def
  by (intro keeps_intros keeps_assert_deepStrictEqual keeps_checkDeep assms;
      simp add: keeps_throw keeps_emit assms split: error.split)

lemma keeps_uncommittedChanges_skip:
  assumes "skip_git opts" and "okE (logger WARN [msg_skip_git])"
  shows "keeps (traceInv okE okI) (uncommittedChanges opts env w ctx)"
  using assms by (simp add: uncommittedChanges_def keeps_emit)

lemma keeps_uncommittedChanges:
  assumes "\<And>c. okE (Call c)" and "\<And>args. runWarning (logger WARN args) \<Longrightarrow> okE (logger WARN args)"
    and "\<And>m. okI m"
  shows "keeps (traceInv okE okI) (uncommittedChanges opts env w ctx)"
  unfolding uncommittedChanges_def
  by (intro keeps_intros keeps_await keeps_emit keeps_check assms;
      simp add: logger_def createLogger_def)


lemma run_keeps_skip_git:
  assumes "skip_git opts"
  shows "keeps (traceInv (\<lambda>ev. \<not> isGitStatus ev) (\<lambda>i. i = msg_out_of_sync)) (run opts env w)"
  unfolding run_def
  by (intro keeps_intros keeps_emit keeps_await keeps_locateFiles keeps_readSnapshot
        keeps_regenerate keeps_compareSnapshots keeps_uncommittedChanges_skip assms;
      simp add: logger_def createLogger_def)

lemma run_keeps_warnings:
  "keeps (traceInv runWarning (\<lambda>i. True)) (run opts env w)"
  unfolding run_def
  by (intro keeps_intros keeps_emit keeps_await keeps_locateFiles keeps_readSnapshot
        keeps_regenerate keeps_compareSnapshots keeps_uncommittedChanges;
      (simp add: logger_def createLogger_def)?; (cases rule: isGitStatus.cases)?; simp?)

lemma traceInv_initial: "traceInv okE okI initial"
  by (simp add: traceInv_def initial_def)

lemma run_skip_git_inv:
  assumes "skip_git opts"
  shows "traceInv (\<lambda>ev. \<not> isGitStatus ev) (\<lambda>i. i = msg_out_of_sync)
           (snd (run opts env w initial))"
  using run_keeps_skip_git[OF assms, of env w] traceInv_initial
  by (simp add: keeps_def)

lemma run_warnings_inv:
  "traceInv runWarning (\<lambda>i. True) (snd (run opts env w initial))"
  using run_keeps_warnings[of opts env w] traceInv_initial
  by (simp add: keeps_def)

subsection \<open>Strict runs, the promise chain, the concrete repository\<close>

lemma run_strict:
  assumes "answered opts env w a" and "\<not> warn opts"
  shows "fst (run opts env w initial)
       = (if guardChecks opts a \<and> \<not> clean (packageStatus a)
          then Inl (AssertionError (msg_package_dirty (manifestPath a)))
          else if guardChecks opts a \<and> \<not> clean (lockfileStatus a)
          then Inl (AssertionError (msg_lockfile_dirty (lockPath a)))
          else if \<not> isDeepStrictEqual env (actualPackage a) (expectedPackage a)
          then Inl (AssertionError (deepStrictEqual_message env (actualPackage a)
                      (expectedPackage a) (msg_manifest_modified (manifestPath a))))
          else if isDeepStrictEqual env (actualLockfile a) (expectedLockfile a)
          then Inr []
          else if driftLines env (deepStrictEqual_message env (actualLockfile a)
                    (expectedLockfile a) msg_out_of_sync) \<noteq> []
          then Inl (Error (msg_drift (driftLines env (deepStrictEqual_message env
                       (actualLockfile a) (expectedLockfile a) msg_out_of_sync)))
                  (AssertionError (deepStrictEqual_message env (actualLockfile a)
                       (expectedLockfile a) msg_out_of_sync)))
          else Inr [])"
proof (cases "isDeepStrictEqual env (actualPackage a) (expectedPackage a)")
  case True
  show ?thesis
    unfolding run_answered_prefix[OF assms(1)]
    using assms(2) True
    by (simp add: uncommittedChanges_strict[OF assms] regenerate_answered[OF assms(1)]
          readSnapshot_actual[OF assms(1)] compareSnapshots_strict getIssues_def)
next
  case False
  show ?thesis
    unfolding run_answered_prefix[OF assms(1)]
    using assms(2) False
    by (simp add: uncommittedChanges_strict[OF assms] regenerate_answered[OF assms(1)]
          readSnapshot_actual[OF assms(1)] compareSnapshots_manifest pathsOf_sel)
qed

lemma main_Inl:
  assumes "fst (run opts env w initial) = Inl err"
  shows "main opts env w = (ReportAndExit err, events (snd (run opts env w initial)))"
  using assms by (cases "run opts env w initial") (simp add: main_def)

lemma main_Inr:
  assumes "fst (run opts env w initial) = Inr iss"
  shows "main opts env w = (fst (report opts iss),
           events (snd (run opts env w initial)) @ snd (report opts iss))"
  using assms by (cases "run opts env w initial") (simp add: main_def)

lemma repo_answered:
  "answered opts (repo ps ls lock1 manifest1 diff) False (repoAnswers ps ls lock1 manifest1)"
  by (simp add: answered_def repo_def repoAnswers_def)

lemma repo_locateFiles:
  "locateFiles (repo ps ls l m d) initial
     = (Inr \<lparr> packageJSONPath = ''/repo/pkgs/foo/package.json'',
              packageDir = ''/repo/pkgs/foo'',
              packageLockPath = ''/repo/package-lock.json'',
              lockfileDir = ''/repo'',
              isWorkspace = True \<rparr>,
        \<lparr> issues = [],
          events = [Call (ImportMetaResolve ''pkgs/foo''),
                    Call (FindPackageJSON ''file:///repo/pkgs/foo''),
                    Call (FindNPMPackage ''/repo/pkgs/foo'')] \<rparr>)"
  by (simp add: locateFiles_def repo_def assert_ok_def bindE_def await_def ret_def initial_def)

lemma msg_out_of_sync_not_dirty:
  "msg_out_of_sync \<noteq> msg_package_dirty p" "msg_out_of_sync \<noteq> msg_lockfile_dirty p"
  by (simp_all add: msg_out_of_sync_def msg_package_dirty_def msg_lockfile_dirty_def)

lemma report_no_git: "list_all (\<lambda>ev. \<not> isGitStatus ev) (snd (report opts iss))"
  by (simp add: report_def logger_def createLogger_def list_all_iff)

lemma runWarning_not_report:
  "\<not> runWarning (logger WARN [msg_issue i])"
  "\<not> runWarning (logger WARN [msg_detected n])"
  "\<not> runWarning (logger WARN [msg_regenerated])"
  by (simp_all add: logger_def createLogger_def msg_issue_def msg_detected_def
        msg_regenerated_def msg_skip_git_def msg_git_unavailable_def msg_peer_differences_def)

lemma report_exit:
  "fst (report opts iss) = ProcessExit EXIT_DRIFT \<longleftrightarrow> warn opts \<and> iss \<noteq> []"
  "fst (report opts iss) = (if warn opts \<and> iss \<noteq> [] then ProcessExit EXIT_DRIFT else Completed)"
  by (simp_all add: report_def)

lemma driftLines_bumped:
  "driftLines (repo ps ls l m diffBumped) (msg_out_of_sync @ [CHR 0x0A] @ diffBumped)
     = [addedLine, removedLine]"
  by (simp add: driftLines_def repo_def msg_out_of_sync_def diffBumped_def addedLine_def
        removedLine_def trim_def isWhiteSpace1_def isWhiteSpace2_def isWhiteSpace3_def
        startsWith_def)

lemma driftLines_peer:
  "driftLines (repo ps ls l m diffPeer) (msg_out_of_sync @ [CHR 0x0A] @ diffPeer) = []"
  by (simp add: driftLines_def repo_def msg_out_of_sync_def diffPeer_def
        trim_def isWhiteSpace1_def isWhiteSpace2_def isWhiteSpace3_def startsWith_def)

lemma out_of_sync_has_no_diff_line:
  "\<not> includes_str msg_out_of_sync removedLine" "\<not> includes_str msg_out_of_sync addedLine"
  by (simp_all add: msg_out_of_sync_def removedLine_def addedLine_def startsWith_def)

lemma strict_mode_tolerates_peer_noise:
  assumes "answered opts env w a" and "\<not> warn opts" and "guardIssues opts a = []"
    and "isDeepStrictEqual env (actualPackage a) (expectedPackage a)"
    and "\<not> isDeepStrictEqual env (actualLockfile a) (expectedLockfile a)"
    and "driftLines env (deepStrictEqual_message env (actualLockfile a) (expectedLockfile a)
           msg_out_of_sync) = []"
  shows "fst (run opts env w initial) = Inr []" and "fst (main opts env w) = Completed"
proof -
  show r: "fst (run opts env w initial) = Inr []"
    using run_strict[OF assms(1,2)] assms(3-6)
    by (simp add: guardIssues_def split: if_splits)
  show "fst (main opts env w) = Completed"
    using main_Inr[OF r] by (simp add: report_exit)
qed


lemma main_warn_report:
  assumes "run opts env w initial = (Inr iss, s)" and "warn opts"
  shows "main opts env w
       = (if iss = [] then (Completed, events s @ [logger INFO [msg_in_sync]])
          else (ProcessExit EXIT_DRIFT,
                events s @ logger WARN [msg_detected (length iss)]
                  # map (\<lambda>issue. logger WARN [msg_issue issue]) iss
                  @ [logger WARN [msg_regenerated]]))"
  using assms by (simp add: main_def report_def)

lemma guardIssues_Nil:
  "guardIssues opts a = []
     \<longleftrightarrow> \<not> (guardChecks opts a \<and> \<not> clean (packageStatus a))
         \<and> \<not> (guardChecks opts a \<and> \<not> clean (lockfileStatus a))"
  by (simp add: guardIssues_def)

lemma main_exits_drift_iff:
  "fst (main opts env w) = ProcessExit EXIT_DRIFT
     \<longleftrightarrow> warn opts \<and> (\<exists>iss. fst (run opts env w initial) = Inr iss \<and> iss \<noteq> [])"
proof (cases "fst (run opts env w initial)")
  case (Inl err)
  from main_Inl[OF Inl] Inl show ?thesis by simp
next
  case (Inr iss)
  from main_Inr[OF Inr] Inr show ?thesis by (simp add: report_exit)
qed

section \<open>The claims\<close>

text \<open>
  C9. For every path context that \<open>locateFiles\<close> resolves, the workspace-root flag is the
  inequality of the lockfile's directory and the manifest's package directory, and these
  are the \<open>dirname\<close> of the lockfile path and of the manifest path.
\<close>

theorem workspace_root_flag:
  assumes "locateFiles env s = (Inr ctx, s')"
  shows "isWorkspace ctx = (lockfileDir ctx \<noteq> packageDir ctx)
       \<and> lockfileDir ctx = dirname env (packageLockPath ctx)
       \<and> packageDir ctx = dirname env (packageJSONPath ctx)"
  using assms
  by (auto simp: locateFiles_def assert_ok_def bindE_def await_def ret_def throw_def
           split: sum.splits option.splits if_splits prod.splits)

text \<open>
  The manifest at \<open>/repo/pkgs/foo/package.json\<close> and the lockfile at
  \<open>/repo/package-lock.json\<close>: the flag is true.
\<close>

theorem workspace_root_flag_witness:
  "locateFiles (repo tracked tracked lock0 manifest0 diffBumped) initial
     = (Inr \<lparr> packageJSONPath = ''/repo/pkgs/foo/package.json'',
              packageDir = ''/repo/pkgs/foo'',
              packageLockPath = ''/repo/package-lock.json'',
              lockfileDir = ''/repo'',
              isWorkspace = True \<rparr>,
        \<lparr> issues = [],
          events = [Call (ImportMetaResolve ''pkgs/foo''),
                    Call (FindPackageJSON ''file:///repo/pkgs/foo''),
                    Call (FindNPMPackage ''/repo/pkgs/foo'')] \<rparr>)
   \<and> True = ((''/repo'' :: string) \<noteq> ''/repo/pkgs/foo'')
   \<and> ''/repo'' = dirname (repo tracked tracked lock0 manifest0 diffBumped)
                     ''/repo/package-lock.json''
   \<and> ''/repo/pkgs/foo'' = dirname (repo tracked tracked lock0 manifest0 diffBumped)
                     ''/repo/pkgs/foo/package.json''"
  using workspace_root_flag[OF repo_locateFiles[of tracked tracked lock0 manifest0 diffBumped]]
        repo_locateFiles[of tracked tracked lock0 manifest0 diffBumped]
  by (simp add: repo_def)

text \<open>
  C8. When no manifest is found (\<open>findPackageJSON\<close> returns \<open>undefined\<close>, or a path that
  is not truthy), \<open>assert.ok\<close> throws: \<open>run\<close> fails with the not-found error whatever the
  options are, the error goes to \<open>reportAndExit\<close>, and the search is made once: nothing
  follows the one call of \<open>findPackageJSON\<close>.
\<close>

theorem manifest_not_found_is_fatal:
  assumes "import_meta_resolve env (cwd env) = Inr rp"
    and "findPackageJSON env rp = Inr found"
    and "\<not> truthy found"
  shows "run opts env w initial
           = (Inl (AssertionError msg_not_found),
              \<lparr> issues = [],
                events = [logger INFO [''Linting lockfile integrity in: '' @ cwd env],
                          Call (ImportMetaResolve (cwd env)),
                          Call (FindPackageJSON rp)] \<rparr>)
       \<and> main opts env w
           = (ReportAndExit (AssertionError msg_not_found),
              [logger INFO [''Linting lockfile integrity in: '' @ cwd env],
               Call (ImportMetaResolve (cwd env)),
               Call (FindPackageJSON rp)])
       \<and> exitCode (fst (main opts env w)) = 1"
proof -
  have r: "run opts env w initial
           = (Inl (AssertionError msg_not_found),
              \<lparr> issues = [],
                events = [logger INFO [''Linting lockfile integrity in: '' @ cwd env],
                          Call (ImportMetaResolve (cwd env)),
                          Call (FindPackageJSON rp)] \<rparr>)"
    using assms
    by (cases found)
       (simp_all add: run_def locateFiles_def bindE_assoc assert_ok_def initial_def)
  then show ?thesis
    by (simp add: main_def exitCode_def)
qed

text \<open>Strict mode and warn mode in the repository without a manifest.\<close>

theorem manifest_not_found_is_fatal_witness:
  "import_meta_resolve (noManifest :: (doc, bool) env) (cwd noManifest)
     = Inr ''file:///repo/pkgs/foo''
   \<and> findPackageJSON noManifest ''file:///repo/pkgs/foo'' = Inr None
   \<and> \<not> truthy None
   \<and> main strict noManifest False
       = (ReportAndExit (AssertionError msg_not_found),
          [logger INFO [''Linting lockfile integrity in: pkgs/foo''],
           Call (ImportMetaResolve ''pkgs/foo''),
           Call (FindPackageJSON ''file:///repo/pkgs/foo'')])
   \<and> main warnOnly noManifest False
       = (ReportAndExit (AssertionError msg_not_found),
          [logger INFO [''Linting lockfile integrity in: pkgs/foo''],
           Call (ImportMetaResolve ''pkgs/foo''),
           Call (FindPackageJSON ''file:///repo/pkgs/foo'')])"
proof -
  have a: "import_meta_resolve (noManifest :: (doc, bool) env) (cwd noManifest)
             = Inr ''file:///repo/pkgs/foo''"
    by (simp add: noManifest_def repo_def)
  have b: "findPackageJSON (noManifest :: (doc, bool) env) ''file:///repo/pkgs/foo'' = Inr None"
    by (simp add: noManifest_def)
  have c: "\<not> truthy None" by simp
  have d: "cwd (noManifest :: (doc, bool) env) = ''pkgs/foo''"
    by (simp add: noManifest_def repo_def)
  show ?thesis
    using manifest_not_found_is_fatal[OF a b c, of strict False]
          manifest_not_found_is_fatal[OF a b c, of warnOnly False] a b
    by (simp add: d)
qed



text \<open>
  C3. In a run whose external calls succeed, if the manifest read after the regeneration
  is not deeply equal to the one read before, \<open>run\<close> throws in either mode and the error
  reaches \<open>reportAndExit\<close>. In warn mode the error is the assertion on the manifest
  (line 172) and the issue list holds nothing but what the guard collected: the
  difference is never turned into an issue. In strict mode the error is the same one
  unless an uncommitted-changes check has already thrown.
\<close>

theorem manifest_change_is_fatal:
  assumes "answered opts env w a"
    and "\<not> isDeepStrictEqual env (actualPackage a) (expectedPackage a)"
  shows "(\<exists>err. fst (run opts env w initial) = Inl err
              \<and> fst (main opts env w) = ReportAndExit err)
       \<and> exitCode (fst (main opts env w)) = 1
       \<and> (warn opts \<longrightarrow>
            run opts env w initial
              = (Inl (AssertionError (deepStrictEqual_message env (actualPackage a)
                        (expectedPackage a) (msg_manifest_modified (manifestPath a)))),
                 \<lparr> issues = guardIssues opts a,
                   events = preamble env a @ guardEvents opts a @ regenEvents env a \<rparr>))
       \<and> (\<not> warn opts \<and> guardIssues opts a = [] \<longrightarrow>
            fst (run opts env w initial)
              = Inl (AssertionError (deepStrictEqual_message env (actualPackage a)
                       (expectedPackage a) (msg_manifest_modified (manifestPath a)))))"
proof -
  have w: "run opts env w initial
              = (Inl (AssertionError (deepStrictEqual_message env (actualPackage a)
                        (expectedPackage a) (msg_manifest_modified (manifestPath a)))),
                 \<lparr> issues = guardIssues opts a,
                   events = preamble env a @ guardEvents opts a @ regenEvents env a \<rparr>)"
    if "warn opts"
    using run_manifest_warn[OF assms(1) that assms(2)] .
  have s: "fst (run opts env w initial)
       = (if guardChecks opts a \<and> \<not> clean (packageStatus a)
          then Inl (AssertionError (msg_package_dirty (manifestPath a)))
          else if guardChecks opts a \<and> \<not> clean (lockfileStatus a)
          then Inl (AssertionError (msg_lockfile_dirty (lockPath a)))
          else Inl (AssertionError (deepStrictEqual_message env (actualPackage a)
                      (expectedPackage a) (msg_manifest_modified (manifestPath a)))))"
    if "\<not> warn opts"
    using run_strict[OF assms(1) that] assms(2) by simp
  have e: "\<exists>err. fst (run opts env w initial) = Inl err"
  proof (cases "warn opts")
    case True
    from w[OF True] show ?thesis by simp
  next
    case False
    from s[OF False] show ?thesis by simp
  qed
  then obtain err where err: "fst (run opts env w initial) = Inl err" ..
  have m: "fst (main opts env w) = ReportAndExit err"
    using main_Inl[OF err] by simp
  have g: "fst (run opts env w initial)
              = Inl (AssertionError (deepStrictEqual_message env (actualPackage a)
                       (expectedPackage a) (msg_manifest_modified (manifestPath a))))"
    if "\<not> warn opts" "guardIssues opts a = []"
    using s[OF that(1)] that(2) by (simp add: guardIssues_def split: if_splits)
  from err m w g show ?thesis
    by (auto simp: exitCode_def)
qed

text \<open>The regeneration rewrites the version in \<open>package.json\<close>; both modes.\<close>

theorem manifest_change_is_fatal_witness:
  "answered strict (repo tracked tracked lock0 manifestChanged diffBumped) False
     (repoAnswers tracked tracked lock0 manifestChanged)
   \<and> answered warnOnly (repo tracked tracked lock0 manifestChanged diffBumped) False
     (repoAnswers tracked tracked lock0 manifestChanged)
   \<and> \<not> isDeepStrictEqual (repo tracked tracked lock0 manifestChanged diffBumped)
         manifestChanged manifest0
   \<and> warn warnOnly \<and> \<not> warn strict
   \<and> guardIssues strict (repoAnswers tracked tracked lock0 manifestChanged) = []
   \<and> fst (run strict (repo tracked tracked lock0 manifestChanged diffBumped) False initial)
       = Inl (AssertionError
           (msg_manifest_modified ''/repo/pkgs/foo/package.json'' @ [CHR 0x0A] @ diffBumped))
   \<and> run warnOnly (repo tracked tracked lock0 manifestChanged diffBumped) False initial
       = (Inl (AssertionError
            (msg_manifest_modified ''/repo/pkgs/foo/package.json'' @ [CHR 0x0A] @ diffBumped)),
          \<lparr> issues = [],
            events = preamble (repo tracked tracked lock0 manifestChanged diffBumped)
                       (repoAnswers tracked tracked lock0 manifestChanged)
                     @ guardEvents warnOnly (repoAnswers tracked tracked lock0 manifestChanged)
                     @ regenEvents (repo tracked tracked lock0 manifestChanged diffBumped)
                         (repoAnswers tracked tracked lock0 manifestChanged) \<rparr>)
   \<and> exitCode (fst (main strict (repo tracked tracked lock0 manifestChanged diffBumped) False)) = 1
   \<and> exitCode (fst (main warnOnly (repo tracked tracked lock0 manifestChanged diffBumped) False)) = 1"
proof -
  let ?R = "repo tracked tracked lock0 manifestChanged diffBumped"
  let ?A = "repoAnswers tracked tracked lock0 manifestChanged"
  have o: "warn warnOnly" "\<not> warn strict" by (simp_all add: warnOnly_def strict_def)
  have ne: "\<not> isDeepStrictEqual ?R (actualPackage ?A) (expectedPackage ?A)"
    by (simp add: repo_def repoAnswers_def manifestChanged_def manifest0_def)
  have ne': "\<not> isDeepStrictEqual ?R manifestChanged manifest0"
    by (simp add: repo_def manifestChanged_def manifest0_def)
  have gi: "guardIssues strict ?A = []" "guardIssues warnOnly ?A = []"
    by (simp_all add: guardIssues_def repoAnswers_def tracked_def)
  have msg: "deepStrictEqual_message ?R (actualPackage ?A) (expectedPackage ?A)
               (msg_manifest_modified (manifestPath ?A))
             = msg_manifest_modified ''/repo/pkgs/foo/package.json'' @ [CHR 0x0A] @ diffBumped"
    by (simp add: repo_def repoAnswers_def)
  note s = manifest_change_is_fatal[OF repo_answered ne, of strict]
  note w = manifest_change_is_fatal[OF repo_answered ne, of warnOnly]
  from s o(2) gi(1) have s4: "fst (run strict ?R False initial)
       = Inl (AssertionError
           (msg_manifest_modified ''/repo/pkgs/foo/package.json'' @ [CHR 0x0A] @ diffBumped))"
    by (simp only: msg; blast?)
  from w o(1) have w3: "run warnOnly ?R False initial
       = (Inl (AssertionError
            (msg_manifest_modified ''/repo/pkgs/foo/package.json'' @ [CHR 0x0A] @ diffBumped)),
          \<lparr> issues = [],
            events = preamble ?R ?A @ guardEvents warnOnly ?A @ regenEvents ?R ?A \<rparr>)"
    by (simp only: msg gi; blast?)
  from s have s2: "exitCode (fst (main strict ?R False)) = 1" by blast
  from w have w2: "exitCode (fst (main warnOnly ?R False)) = 1" by blast
  from repo_answered[of strict tracked tracked lock0 manifestChanged diffBumped]
       repo_answered[of warnOnly tracked tracked lock0 manifestChanged diffBumped]
       ne' o gi(1) s4 w3 s2 w2
  show ?thesis by (intro conjI)
qed

text \<open>
  C10. In warn mode, when \<open>run\<close> throws after issues were collected, the script hands
  the error to \<open>reportAndExit\<close> and writes nothing more itself: no line of what the
  process wrote through the logger is the report of a collected issue or the count of
  issues. The issues stay in the state of the aborted run.
\<close>

theorem fatal_error_drops_collected_issues:
  assumes "warn opts" and "run opts env w initial = (Inl err, s)"
  shows "main opts env w = (ReportAndExit err, events s)
       \<and> (\<forall>i \<in> set (issues s). logger WARN [msg_issue i] \<notin> set (snd (main opts env w)))
       \<and> (\<forall>n. logger WARN [msg_detected n] \<notin> set (snd (main opts env w)))"
proof -
  have m: "main opts env w = (ReportAndExit err, events s)"
    using assms(2) by (simp add: main_def)
  have inv: "list_all runWarning (events s)"
    using run_warnings_inv[of opts env w] assms(2) by (simp add: traceInv_def)
  have "logger WARN [msg_issue i] \<notin> set (events s)" for i
    using inv runWarning_not_report(1)[of i] by (auto simp: list_all_iff)
  moreover have "logger WARN [msg_detected n] \<notin> set (events s)" for n
    using inv runWarning_not_report(2)[of n] by (auto simp: list_all_iff)
  ultimately show ?thesis using m by simp
qed

text \<open>
  Warn mode, both files modified, and the regeneration rewrites the manifest: two
  issues are collected, the run throws the manifest error, neither issue is reported.
\<close>

theorem fatal_error_drops_collected_issues_witness:
  "warn warnOnly
   \<and> run warnOnly (repo dirty dirty lock0 manifestChanged diffBumped) False initial
       = (Inl (AssertionError
                 (msg_manifest_modified ''/repo/pkgs/foo/package.json'' @ [CHR 0x0A] @ diffBumped)),
          \<lparr> issues = [msg_package_dirty ''/repo/pkgs/foo/package.json'',
                      msg_lockfile_dirty ''/repo/package-lock.json''],
            events = preamble (repo dirty dirty lock0 manifestChanged diffBumped)
                       (repoAnswers dirty dirty lock0 manifestChanged)
                     @ guardEvents warnOnly (repoAnswers dirty dirty lock0 manifestChanged)
                     @ regenEvents (repo dirty dirty lock0 manifestChanged diffBumped)
                         (repoAnswers dirty dirty lock0 manifestChanged) \<rparr>)
   \<and> fst (main warnOnly (repo dirty dirty lock0 manifestChanged diffBumped) False)
       = ReportAndExit (AssertionError
           (msg_manifest_modified ''/repo/pkgs/foo/package.json'' @ [CHR 0x0A] @ diffBumped))
   \<and> logger WARN [msg_issue (msg_package_dirty ''/repo/pkgs/foo/package.json'')]
       \<notin> set (snd (main warnOnly (repo dirty dirty lock0 manifestChanged diffBumped) False))
   \<and> logger WARN [msg_issue (msg_lockfile_dirty ''/repo/package-lock.json'')]
       \<notin> set (snd (main warnOnly (repo dirty dirty lock0 manifestChanged diffBumped) False))
   \<and> logger WARN [msg_detected 2]
       \<notin> set (snd (main warnOnly (repo dirty dirty lock0 manifestChanged diffBumped) False))"
proof -
  let ?R = "repo dirty dirty lock0 manifestChanged diffBumped"
  let ?A = "repoAnswers dirty dirty lock0 manifestChanged"
  have o: "warn warnOnly" "\<not> skip_git warnOnly" by (simp_all add: warnOnly_def)
  have ne: "\<not> isDeepStrictEqual ?R (actualPackage ?A) (expectedPackage ?A)"
    by (simp add: repo_def repoAnswers_def manifestChanged_def manifest0_def)
  have gi: "guardIssues warnOnly ?A = [msg_package_dirty ''/repo/pkgs/foo/package.json'',
                      msg_lockfile_dirty ''/repo/package-lock.json'']"
    by (simp add: guardIssues_def guardChecks_def o repoAnswers_def dirty_def)
  have msg: "deepStrictEqual_message ?R (actualPackage ?A) (expectedPackage ?A)
               (msg_manifest_modified (manifestPath ?A))
             = msg_manifest_modified ''/repo/pkgs/foo/package.json'' @ [CHR 0x0A] @ diffBumped"
    by (simp add: repo_def repoAnswers_def)
  have r: "run warnOnly ?R False initial
       = (Inl (AssertionError
                 (msg_manifest_modified ''/repo/pkgs/foo/package.json'' @ [CHR 0x0A] @ diffBumped)),
          \<lparr> issues = [msg_package_dirty ''/repo/pkgs/foo/package.json'',
                      msg_lockfile_dirty ''/repo/package-lock.json''],
            events = preamble ?R ?A @ guardEvents warnOnly ?A @ regenEvents ?R ?A \<rparr>)"
    using run_manifest_warn[OF repo_answered o(1) ne] by (simp only: gi msg)
  note t = fatal_error_drops_collected_issues[OF o(1) r]
  note t1 = t[THEN conjunct1] and t2 = t[THEN conjunct2, THEN conjunct1]
    and t3 = t[THEN conjunct2, THEN conjunct2]
  from t1 have m: "fst (main warnOnly ?R False) = ReportAndExit (AssertionError
           (msg_manifest_modified ''/repo/pkgs/foo/package.json'' @ [CHR 0x0A] @ diffBumped))"
    by simp
  from t2 have i1: "logger WARN [msg_issue (msg_package_dirty ''/repo/pkgs/foo/package.json'')]
       \<notin> set (snd (main warnOnly ?R False))"
    and i2: "logger WARN [msg_issue (msg_lockfile_dirty ''/repo/package-lock.json'')]
       \<notin> set (snd (main warnOnly ?R False))"
    by simp_all
  from t3 have d: "logger WARN [msg_detected 2] \<notin> set (snd (main warnOnly ?R False))"
    by blast
  from o(1) r m i1 i2 d show ?thesis by (intro conjI)
qed

text \<open>
  C7. With \<open>--skip-git\<close> the guard does nothing but write one line through
  \<open>logger.warn\<close>: it queries no status, records no issue and does not throw. In the
  whole script no \<open>gitStatus\<close> call is ever made, whatever the collaborators answer, and
  the only issue a run can collect is the out-of-sync message of the lockfile check,
  never an uncommitted-changes message.
\<close>

theorem skip_git_makes_no_query:
  assumes "skip_git opts"
  shows "uncommittedChanges opts env w ctx s
           = (Inr (), s\<lparr>events := events s @ [logger WARN [msg_skip_git]]\<rparr>)
       \<and> (\<forall>ev \<in> set (snd (main opts env w)). \<not> isGitStatus ev)
       \<and> (\<forall>i \<in> set (issues (snd (run opts env w initial))). i = msg_out_of_sync)
       \<and> (\<forall>p. msg_package_dirty p \<notin> set (issues (snd (run opts env w initial)))
              \<and> msg_lockfile_dirty p \<notin> set (issues (snd (run opts env w initial))))"
proof -
  have u: "uncommittedChanges opts env w ctx s
           = (Inr (), s\<lparr>events := events s @ [logger WARN [msg_skip_git]]\<rparr>)"
    using assms by (simp add: uncommittedChanges_def emit_def)
  have inv: "list_all (\<lambda>ev. \<not> isGitStatus ev) (events (snd (run opts env w initial)))"
            "list_all (\<lambda>i. i = msg_out_of_sync) (issues (snd (run opts env w initial)))"
    using run_skip_git_inv[OF assms, of env w] by (simp_all add: traceInv_def)
  have ev: "\<forall>ev \<in> set (snd (main opts env w)). \<not> isGitStatus ev"
  proof (cases "run opts env w initial")
    case (Pair r s')
    with inv(1) report_no_git show ?thesis
      by (cases r) (auto simp: main_def list_all_iff)
  qed
  have iss: "\<forall>i \<in> set (issues (snd (run opts env w initial))). i = msg_out_of_sync"
    using inv(2) by (simp add: list_all_iff)
  have nd: "\<forall>p. msg_package_dirty p \<notin> set (issues (snd (run opts env w initial)))
              \<and> msg_lockfile_dirty p \<notin> set (issues (snd (run opts env w initial)))"
    using iss msg_out_of_sync_not_dirty by metis
  from u ev iss nd show ?thesis by blast
qed

text \<open>Warn mode with \<open>--skip-git\<close>, both files modified and lodash bumped.\<close>

theorem skip_git_makes_no_query_witness:
  "skip_git warnSkip
   \<and> uncommittedChanges warnSkip (repo dirty dirty lockBumped manifest0 diffBumped) False
        (pathsOf (repo dirty dirty lockBumped manifest0 diffBumped)
                 (repoAnswers dirty dirty lockBumped manifest0)) initial
       = (Inr (), \<lparr> issues = [], events = [logger WARN [msg_skip_git]] \<rparr>)
   \<and> list_all (\<lambda>ev. \<not> isGitStatus ev)
        (snd (main warnSkip (repo dirty dirty lockBumped manifest0 diffBumped) False))
   \<and> issues (snd (run warnSkip (repo dirty dirty lockBumped manifest0 diffBumped) False initial))
       = [msg_out_of_sync]
   \<and> msg_package_dirty ''/repo/pkgs/foo/package.json''
       \<notin> set (issues (snd (run warnSkip (repo dirty dirty lockBumped manifest0 diffBumped)
                                  False initial)))"
proof -
  let ?R = "repo dirty dirty lockBumped manifest0 diffBumped"
  let ?A = "repoAnswers dirty dirty lockBumped manifest0"
  have o: "skip_git warnSkip" "warn warnSkip" by (simp_all add: warnSkip_def)
  have e: "isDeepStrictEqual ?R (actualPackage ?A) (expectedPackage ?A)"
          "\<not> isDeepStrictEqual ?R (actualLockfile ?A) (expectedLockfile ?A)"
    by (simp_all add: repo_def repoAnswers_def lockBumped_def lock0_def)
  have gi: "guardIssues warnSkip ?A = []"
    by (simp add: guardIssues_def guardChecks_def o)
  have r: "issues (snd (run warnSkip ?R False initial)) = [msg_out_of_sync]"
    by (simp add: run_warn[OF repo_answered o(2) e(1)] e(2) gi)
  show ?thesis
    using skip_git_makes_no_query[OF o(1), of ?R False "pathsOf ?R ?A" initial] o(1) r
    by (simp add: list_all_iff initial_def)
qed

text \<open>
  C6, as the code has it. The guard queries the status of both files. When git is
  unavailable for either of them it writes one warning and runs neither dirty-check, and
  it does not fail; the two dirty-checks run only when git is available for both files.
\<close>

theorem git_unavailable_skips_both_checks:
  assumes "\<not> skip_git opts"
    and "gitStatus env w (packageJSONPath ctx) = Inr ps"
    and "gitStatus env w (packageLockPath ctx) = Inr ls"
  shows "(\<not> available ps \<or> \<not> available ls \<longrightarrow>
            uncommittedChanges opts env w ctx s
              = (Inr (), s\<lparr>events := events s @ [Call (GitStatus (packageJSONPath ctx)),
                                                 Call (GitStatus (packageLockPath ctx)),
                                                 logger WARN [msg_git_unavailable]]\<rparr>))
       \<and> (available ps \<and> available ls \<longrightarrow>
            uncommittedChanges opts env w ctx s
              = bindE (check opts (clean ps) (msg_package_dirty (packageJSONPath ctx)))
                  (\<lambda>_. check opts (clean ls) (msg_lockfile_dirty (packageLockPath ctx)))
                  (s\<lparr>events := events s @ [Call (GitStatus (packageJSONPath ctx)),
                                           Call (GitStatus (packageLockPath ctx))]\<rparr>))"
  using assms
  by (simp add: uncommittedChanges_def bindE_def await_def emit_def)

text \<open>
  \<open>package-lock.json\<close> without git: nothing is checked. Git available for both modified
  files: both are reported.
\<close>

theorem git_unavailable_skips_both_checks_witness:
  "\<not> skip_git warnOnly
   \<and> gitStatus (repo dirty untracked lock0 manifest0 diffBumped) False
        (packageJSONPath (pathsOf (repo dirty untracked lock0 manifest0 diffBumped)
                                  (repoAnswers dirty untracked lock0 manifest0))) = Inr dirty
   \<and> gitStatus (repo dirty untracked lock0 manifest0 diffBumped) False
        (packageLockPath (pathsOf (repo dirty untracked lock0 manifest0 diffBumped)
                                  (repoAnswers dirty untracked lock0 manifest0))) = Inr untracked
   \<and> \<not> available untracked
   \<and> uncommittedChanges warnOnly (repo dirty untracked lock0 manifest0 diffBumped) False
        (pathsOf (repo dirty untracked lock0 manifest0 diffBumped)
                 (repoAnswers dirty untracked lock0 manifest0)) initial
       = (Inr (), \<lparr> issues = [],
                    events = [Call (GitStatus ''/repo/pkgs/foo/package.json''),
                              Call (GitStatus ''/repo/package-lock.json''),
                              logger WARN [msg_git_unavailable]] \<rparr>)
   \<and> gitStatus (repo dirty dirty lock0 manifest0 diffBumped) False
        (packageLockPath (pathsOf (repo dirty dirty lock0 manifest0 diffBumped)
                                  (repoAnswers dirty dirty lock0 manifest0))) = Inr dirty
   \<and> available dirty
   \<and> uncommittedChanges warnOnly (repo dirty dirty lock0 manifest0 diffBumped) False
        (pathsOf (repo dirty dirty lock0 manifest0 diffBumped)
                 (repoAnswers dirty dirty lock0 manifest0)) initial
       = (Inr (), \<lparr> issues = [msg_package_dirty ''/repo/pkgs/foo/package.json'',
                              msg_lockfile_dirty ''/repo/package-lock.json''],
                    events = [Call (GitStatus ''/repo/pkgs/foo/package.json''),
                              Call (GitStatus ''/repo/package-lock.json'')] \<rparr>)"
proof -
  let ?R = "repo dirty untracked lock0 manifest0 diffBumped"
  let ?C = "pathsOf ?R (repoAnswers dirty untracked lock0 manifest0)"
  let ?R' = "repo dirty dirty lock0 manifest0 diffBumped"
  let ?C' = "pathsOf ?R' (repoAnswers dirty dirty lock0 manifest0)"
  have o: "\<not> skip_git warnOnly" "warn warnOnly" by (simp_all add: warnOnly_def)
  have p: "packageJSONPath ?C = ''/repo/pkgs/foo/package.json''"
          "packageLockPath ?C = ''/repo/package-lock.json''"
          "packageJSONPath ?C' = ''/repo/pkgs/foo/package.json''"
          "packageLockPath ?C' = ''/repo/package-lock.json''"
    by (simp_all add: pathsOf_sel repoAnswers_def)
  have g: "gitStatus ?R False (packageJSONPath ?C) = Inr dirty"
          "gitStatus ?R False (packageLockPath ?C) = Inr untracked"
    by (simp_all add: pathsOf_sel repoAnswers_def repo_def)
  have g': "gitStatus ?R' False (packageJSONPath ?C') = Inr dirty"
           "gitStatus ?R' False (packageLockPath ?C') = Inr dirty"
    by (simp_all add: pathsOf_sel repoAnswers_def repo_def)
  have a: "\<not> available untracked" "available dirty" "\<not> clean dirty"
    by (simp_all add: untracked_def dirty_def)
  show ?thesis
    using git_unavailable_skips_both_checks[OF o(1) g, of initial]
          git_unavailable_skips_both_checks[OF o(1) g', of initial] g g'
    by (simp add: a o p check_def push_def initial_def)
qed

text \<open>
  C6 as stated fails: git is available for \<open>package.json\<close> and the file is modified,
  git is unavailable for \<open>package-lock.json\<close>; the dirty-check of \<open>package.json\<close> does
  not run, no issue is recorded, and the run reports nothing in either mode.
\<close>

theorem per_path_skip_counterexample:
  "gitStatus (repo dirty untracked lock0 manifest0 diffBumped) False
        ''/repo/pkgs/foo/package.json'' = Inr dirty
   \<and> available dirty \<and> \<not> clean dirty
   \<and> gitStatus (repo dirty untracked lock0 manifest0 diffBumped) False
        ''/repo/package-lock.json'' = Inr untracked
   \<and> \<not> available untracked
   \<and> uncommittedChanges warnOnly (repo dirty untracked lock0 manifest0 diffBumped) False
        (pathsOf (repo dirty untracked lock0 manifest0 diffBumped)
                 (repoAnswers dirty untracked lock0 manifest0)) initial
       = (Inr (), \<lparr> issues = [],
                    events = [Call (GitStatus ''/repo/pkgs/foo/package.json''),
                              Call (GitStatus ''/repo/package-lock.json''),
                              logger WARN [msg_git_unavailable]] \<rparr>)
   \<and> fst (run warnOnly (repo dirty untracked lock0 manifest0 diffBumped) False initial) = Inr []
   \<and> fst (run strict (repo dirty untracked lock0 manifest0 diffBumped) False initial) = Inr []"
proof -
  let ?R = "repo dirty untracked lock0 manifest0 diffBumped"
  let ?A = "repoAnswers dirty untracked lock0 manifest0"
  have o: "\<not> skip_git warnOnly" "warn warnOnly" "\<not> warn strict"
    by (simp_all add: warnOnly_def strict_def)
  have a: "\<not> available untracked" "available dirty" "\<not> clean dirty"
    by (simp_all add: untracked_def dirty_def)
  have g: "gitStatus ?R False ''/repo/pkgs/foo/package.json'' = Inr dirty"
          "gitStatus ?R False ''/repo/package-lock.json'' = Inr untracked"
    by (simp_all add: repo_def)
  have u: "uncommittedChanges warnOnly ?R False (pathsOf ?R ?A) initial
       = (Inr (), \<lparr> issues = [],
                    events = [Call (GitStatus ''/repo/pkgs/foo/package.json''),
                              Call (GitStatus ''/repo/package-lock.json''),
                              logger WARN [msg_git_unavailable]] \<rparr>)"
    by (simp add: uncommittedChanges_def pathsOf_sel repoAnswers_def g o a bindE_def
          await_def emit_def initial_def)
  have e: "isDeepStrictEqual ?R (actualPackage ?A) (expectedPackage ?A)"
          "isDeepStrictEqual ?R (actualLockfile ?A) (expectedLockfile ?A)"
    by (simp_all add: repo_def repoAnswers_def)
  have gc: "\<not> guardChecks warnOnly ?A" "\<not> guardChecks strict ?A"
    by (simp_all add: guardChecks_def repoAnswers_def a)
  have rw: "fst (run warnOnly ?R False initial) = Inr []"
    by (simp add: run_warn[OF repo_answered o(2) e(1)] e(2) guardIssues_def gc)
  have rs: "fst (run strict ?R False initial) = Inr []"
    by (simp add: run_strict[OF repo_answered o(3)] e gc)
  show ?thesis
    using g a u rw rs by simp
qed

text \<open>
  C5 fails on the code. The script calls \<open>process.exit(EXIT_DRIFT)\<close> whenever warn mode
  is active and \<open>run\<close> returns a non-empty issue list (\<open>main_exits_drift_iff\<close>), whatever
  the issues are. At this input \<open>package.json\<close> has uncommitted changes and the
  regeneration leaves the lockfile as it was: no drift is detected, the one issue is
  the uncommitted-changes message, and the process exits with the drift code.
\<close>

theorem warn_mode_exits_drift_without_drift:
  "warn warnOnly
   \<and> loadJSON (repo dirty tracked lock0 manifest0 diffBumped) False ''/repo/package-lock.json''
       = Inr lock0
   \<and> loadJSON (repo dirty tracked lock0 manifest0 diffBumped) True ''/repo/package-lock.json''
       = Inr lock0
   \<and> isDeepStrictEqual (repo dirty tracked lock0 manifest0 diffBumped) lock0 lock0
   \<and> run warnOnly (repo dirty tracked lock0 manifest0 diffBumped) False initial
       = (Inr [msg_package_dirty ''/repo/pkgs/foo/package.json''],
          \<lparr> issues = [msg_package_dirty ''/repo/pkgs/foo/package.json''],
            events = preamble (repo dirty tracked lock0 manifest0 diffBumped)
                       (repoAnswers dirty tracked lock0 manifest0)
                     @ guardEvents warnOnly (repoAnswers dirty tracked lock0 manifest0)
                     @ regenEvents (repo dirty tracked lock0 manifest0 diffBumped)
                         (repoAnswers dirty tracked lock0 manifest0) \<rparr>)
   \<and> main warnOnly (repo dirty tracked lock0 manifest0 diffBumped) False
       = (ProcessExit EXIT_DRIFT,
          preamble (repo dirty tracked lock0 manifest0 diffBumped)
            (repoAnswers dirty tracked lock0 manifest0)
          @ guardEvents warnOnly (repoAnswers dirty tracked lock0 manifest0)
          @ regenEvents (repo dirty tracked lock0 manifest0 diffBumped)
              (repoAnswers dirty tracked lock0 manifest0)
          @ [logger WARN [msg_detected 1],
             logger WARN [msg_issue (msg_package_dirty ''/repo/pkgs/foo/package.json'')],
             logger WARN [msg_regenerated]])
   \<and> EXIT_DRIFT = 2"
proof -
  let ?R = "repo dirty tracked lock0 manifest0 diffBumped"
  let ?A = "repoAnswers dirty tracked lock0 manifest0"
  have o: "warn warnOnly" by (simp add: warnOnly_def)
  have l: "loadJSON ?R False ''/repo/package-lock.json'' = Inr lock0"
          "loadJSON ?R True ''/repo/package-lock.json'' = Inr lock0"
          "isDeepStrictEqual ?R lock0 lock0"
    by (simp_all add: repo_def)
  have e: "isDeepStrictEqual ?R (actualPackage ?A) (expectedPackage ?A)"
          "isDeepStrictEqual ?R (actualLockfile ?A) (expectedLockfile ?A)"
    by (simp_all add: repo_def repoAnswers_def)
  have gi: "guardIssues warnOnly ?A = [msg_package_dirty ''/repo/pkgs/foo/package.json'']"
    by (simp add: guardIssues_def guardChecks_def warnOnly_def repoAnswers_def
          dirty_def tracked_def)
  have r: "run warnOnly ?R False initial
       = (Inr [msg_package_dirty ''/repo/pkgs/foo/package.json''],
          \<lparr> issues = [msg_package_dirty ''/repo/pkgs/foo/package.json''],
            events = preamble ?R ?A @ guardEvents warnOnly ?A @ regenEvents ?R ?A \<rparr>)"
    using run_warn[OF repo_answered o e(1)] e(2) by (simp add: gi)
  have m: "main warnOnly ?R False
       = (ProcessExit EXIT_DRIFT,
          preamble ?R ?A @ guardEvents warnOnly ?A @ regenEvents ?R ?A
          @ [logger WARN [msg_detected 1],
             logger WARN [msg_issue (msg_package_dirty ''/repo/pkgs/foo/package.json'')],
             logger WARN [msg_regenerated]])"
    using main_warn_report[OF r o] by simp
  have x: "EXIT_DRIFT = 2" by (simp add: EXIT_DRIFT_def)
  from o l r m x show ?thesis by (intro conjI)
qed

text \<open>
  C2, as the code has it. In warn mode, in a run whose external calls succeed and that
  leaves the manifest alone, a regenerated lockfile that differs from the one read before
  in a line that counts as drift (a difference that is not a \<open>peer:\<close> line) adds exactly
  one issue after those of the guard. The script then reports every collected issue and
  calls \<open>process.exit(2)\<close>. With no uncommitted-changes issue it is the only issue.
\<close>

theorem warn_mode_records_out_of_sync:
  assumes "answered opts env w a" and "warn opts"
    and "isDeepStrictEqual env (actualPackage a) (expectedPackage a)"
    and "\<not> isDeepStrictEqual env (actualLockfile a) (expectedLockfile a)"
    and "driftLines env (deepStrictEqual_message env (actualLockfile a) (expectedLockfile a)
           msg_out_of_sync) \<noteq> []"
  shows "run opts env w initial
           = (Inr (guardIssues opts a @ [msg_out_of_sync]),
              \<lparr> issues = guardIssues opts a @ [msg_out_of_sync],
                events = preamble env a @ guardEvents opts a @ regenEvents env a \<rparr>)
       \<and> main opts env w
           = (ProcessExit EXIT_DRIFT,
              preamble env a @ guardEvents opts a @ regenEvents env a
                @ logger WARN [msg_detected (length (guardIssues opts a) + 1)]
                # map (\<lambda>issue. logger WARN [msg_issue issue])
                    (guardIssues opts a @ [msg_out_of_sync])
                @ [logger WARN [msg_regenerated]])
       \<and> EXIT_DRIFT = 2
       \<and> (guardIssues opts a = [] \<longrightarrow> fst (run opts env w initial) = Inr [msg_out_of_sync])"
proof -
  have r: "run opts env w initial
           = (Inr (guardIssues opts a @ [msg_out_of_sync]),
              \<lparr> issues = guardIssues opts a @ [msg_out_of_sync],
                events = preamble env a @ guardEvents opts a @ regenEvents env a \<rparr>)"
    using run_warn[OF assms(1,2,3)] assms(4) by simp
  have m: "main opts env w
           = (ProcessExit EXIT_DRIFT,
              preamble env a @ guardEvents opts a @ regenEvents env a
                @ logger WARN [msg_detected (length (guardIssues opts a) + 1)]
                # map (\<lambda>issue. logger WARN [msg_issue issue])
                    (guardIssues opts a @ [msg_out_of_sync])
                @ [logger WARN [msg_regenerated]])"
    using main_warn_report[OF r assms(2)] by simp
  from r m show ?thesis
    by (simp add: EXIT_DRIFT_def)
qed

text \<open>
  lodash bumped by the regeneration: with a modified \<open>package.json\<close> (two issues, both
  reported) and with a clean tree (one issue).
\<close>

theorem warn_mode_records_out_of_sync_witness:
  "answered warnOnly (repo dirty tracked lockBumped manifest0 diffBumped) False
     (repoAnswers dirty tracked lockBumped manifest0)
   \<and> warn warnOnly
   \<and> isDeepStrictEqual (repo dirty tracked lockBumped manifest0 diffBumped) manifest0 manifest0
   \<and> \<not> isDeepStrictEqual (repo dirty tracked lockBumped manifest0 diffBumped) lockBumped lock0
   \<and> driftLines (repo dirty tracked lockBumped manifest0 diffBumped)
        (msg_out_of_sync @ [CHR 0x0A] @ diffBumped) = [addedLine, removedLine]
   \<and> run warnOnly (repo dirty tracked lockBumped manifest0 diffBumped) False initial
       = (Inr [msg_package_dirty ''/repo/pkgs/foo/package.json'', msg_out_of_sync],
          \<lparr> issues = [msg_package_dirty ''/repo/pkgs/foo/package.json'', msg_out_of_sync],
            events = preamble (repo dirty tracked lockBumped manifest0 diffBumped)
                       (repoAnswers dirty tracked lockBumped manifest0)
                     @ guardEvents warnOnly (repoAnswers dirty tracked lockBumped manifest0)
                     @ regenEvents (repo dirty tracked lockBumped manifest0 diffBumped)
                         (repoAnswers dirty tracked lockBumped manifest0) \<rparr>)
   \<and> main warnOnly (repo dirty tracked lockBumped manifest0 diffBumped) False
       = (ProcessExit 2,
          preamble (repo dirty tracked lockBumped manifest0 diffBumped)
            (repoAnswers dirty tracked lockBumped manifest0)
          @ guardEvents warnOnly (repoAnswers dirty tracked lockBumped manifest0)
          @ regenEvents (repo dirty tracked lockBumped manifest0 diffBumped)
              (repoAnswers dirty tracked lockBumped manifest0)
          @ [logger WARN [msg_detected 2],
             logger WARN [msg_issue (msg_package_dirty ''/repo/pkgs/foo/package.json'')],
             logger WARN [msg_issue msg_out_of_sync],
             logger WARN [msg_regenerated]])
   \<and> guardIssues warnOnly (repoAnswers tracked tracked lockBumped manifest0) = []
   \<and> fst (run warnOnly (repo tracked tracked lockBumped manifest0 diffBumped) False initial)
       = Inr [msg_out_of_sync]"
proof -
  let ?R = "repo dirty tracked lockBumped manifest0 diffBumped"
  let ?A = "repoAnswers dirty tracked lockBumped manifest0"
  let ?R' = "repo tracked tracked lockBumped manifest0 diffBumped"
  let ?A' = "repoAnswers tracked tracked lockBumped manifest0"
  have o: "warn warnOnly" by (simp add: warnOnly_def)
  have e: "isDeepStrictEqual ?R (actualPackage ?A) (expectedPackage ?A)"
          "isDeepStrictEqual ?R' (actualPackage ?A') (expectedPackage ?A')"
          "isDeepStrictEqual ?R manifest0 manifest0"
    by (simp_all add: repo_def repoAnswers_def)
  have ne: "\<not> isDeepStrictEqual ?R (actualLockfile ?A) (expectedLockfile ?A)"
           "\<not> isDeepStrictEqual ?R' (actualLockfile ?A') (expectedLockfile ?A')"
           "\<not> isDeepStrictEqual ?R lockBumped lock0"
    by (simp_all add: repo_def repoAnswers_def lockBumped_def lock0_def)
  have m: "deepStrictEqual_message ?R (actualLockfile ?A) (expectedLockfile ?A) msg_out_of_sync
             = msg_out_of_sync @ [CHR 0x0A] @ diffBumped"
          "deepStrictEqual_message ?R' (actualLockfile ?A') (expectedLockfile ?A') msg_out_of_sync
             = msg_out_of_sync @ [CHR 0x0A] @ diffBumped"
    by (simp_all add: repo_def)
  have dl: "driftLines ?R (msg_out_of_sync @ [CHR 0x0A] @ diffBumped) = [addedLine, removedLine]"
           "driftLines ?R' (msg_out_of_sync @ [CHR 0x0A] @ diffBumped) = [addedLine, removedLine]"
    by (rule driftLines_bumped)+
  have d: "driftLines ?R (deepStrictEqual_message ?R (actualLockfile ?A) (expectedLockfile ?A)
             msg_out_of_sync) \<noteq> []"
          "driftLines ?R' (deepStrictEqual_message ?R' (actualLockfile ?A') (expectedLockfile ?A')
             msg_out_of_sync) \<noteq> []"
    by (simp_all only: m dl list.distinct not_False_eq_True)
  have gi: "guardIssues warnOnly ?A = [msg_package_dirty ''/repo/pkgs/foo/package.json'']"
           "guardIssues warnOnly ?A' = []"
    by (simp_all add: guardIssues_def guardChecks_def warnOnly_def repoAnswers_def
          dirty_def tracked_def)
  note t = warn_mode_records_out_of_sync[OF repo_answered o e(1) ne(1) d(1)]
  note c = warn_mode_records_out_of_sync[OF repo_answered o e(2) ne(2) d(2)]
  from t[THEN conjunct1] have t1: "run warnOnly ?R False initial
       = (Inr [msg_package_dirty ''/repo/pkgs/foo/package.json'', msg_out_of_sync],
          \<lparr> issues = [msg_package_dirty ''/repo/pkgs/foo/package.json'', msg_out_of_sync],
            events = preamble ?R ?A @ guardEvents warnOnly ?A @ regenEvents ?R ?A \<rparr>)"
    by (simp only: gi append.simps)
  from t[THEN conjunct2, THEN conjunct1] have t2: "main warnOnly ?R False
       = (ProcessExit 2,
          preamble ?R ?A @ guardEvents warnOnly ?A @ regenEvents ?R ?A
          @ [logger WARN [msg_detected 2],
             logger WARN [msg_issue (msg_package_dirty ''/repo/pkgs/foo/package.json'')],
             logger WARN [msg_issue msg_out_of_sync],
             logger WARN [msg_regenerated]])"
    unfolding gi by (simp add: EXIT_DRIFT_def numeral_2_eq_2)
  from c[THEN conjunct2, THEN conjunct2, THEN conjunct2] gi(2)
  have c1: "fst (run warnOnly ?R' False initial) = Inr [msg_out_of_sync]"
    by (rule mp)
  from repo_answered[of warnOnly dirty tracked lockBumped manifest0 diffBumped]
       o e(3) ne(3) dl(1) t1 t2 gi(2) c1
  show ?thesis by (intro conjI)
qed

text \<open>
  C2 as stated fails. lodash is bumped from 4.17.20 to 4.17.21, so the changed lines of
  the diff are \<open>addedLine\<close> and \<open>removedLine\<close>. With a modified \<open>package.json\<close> warn
  mode records two issues, not one; with a clean tree it records one, and that issue
  contains neither changed line.
\<close>

theorem one_issue_with_diff_lines_counterexample:
  "warn warnOnly
   \<and> \<not> isDeepStrictEqual (repo tracked tracked lockBumped manifest0 diffBumped) lockBumped lock0
   \<and> driftLines (repo tracked tracked lockBumped manifest0 diffBumped)
        (deepStrictEqual_message (repo tracked tracked lockBumped manifest0 diffBumped)
           lockBumped lock0 msg_out_of_sync)
       = [addedLine, removedLine]
   \<and> fst (run warnOnly (repo dirty tracked lockBumped manifest0 diffBumped) False initial)
       = Inr [msg_package_dirty ''/repo/pkgs/foo/package.json'', msg_out_of_sync]
   \<and> fst (run warnOnly (repo tracked tracked lockBumped manifest0 diffBumped) False initial)
       = Inr [msg_out_of_sync]
   \<and> \<not> includes_str msg_out_of_sync removedLine
   \<and> \<not> includes_str msg_out_of_sync addedLine"
proof -
  let ?R = "repo tracked tracked lockBumped manifest0 diffBumped"
  let ?A = "repoAnswers tracked tracked lockBumped manifest0"
  let ?R' = "repo dirty tracked lockBumped manifest0 diffBumped"
  let ?A' = "repoAnswers dirty tracked lockBumped manifest0"
  have o: "warn warnOnly" by (simp add: warnOnly_def)
  have e: "isDeepStrictEqual ?R (actualPackage ?A) (expectedPackage ?A)"
          "isDeepStrictEqual ?R' (actualPackage ?A') (expectedPackage ?A')"
    by (simp_all add: repo_def repoAnswers_def)
  have ne: "\<not> isDeepStrictEqual ?R (actualLockfile ?A) (expectedLockfile ?A)"
           "\<not> isDeepStrictEqual ?R' (actualLockfile ?A') (expectedLockfile ?A')"
           "\<not> isDeepStrictEqual ?R lockBumped lock0"
    by (simp_all add: repo_def repoAnswers_def lockBumped_def lock0_def)
  have gi: "guardIssues warnOnly ?A = []"
           "guardIssues warnOnly ?A' = [msg_package_dirty ''/repo/pkgs/foo/package.json'']"
    by (simp_all add: guardIssues_def guardChecks_def warnOnly_def repoAnswers_def
          tracked_def dirty_def)
  have r: "fst (run warnOnly ?R False initial) = Inr [msg_out_of_sync]"
    using run_warn[OF repo_answered o e(1)] ne(1) by (simp add: gi)
  have r': "fst (run warnOnly ?R' False initial)
              = Inr [msg_package_dirty ''/repo/pkgs/foo/package.json'', msg_out_of_sync]"
    using run_warn[OF repo_answered o e(2)] ne(2) by (simp add: gi)
  have m: "deepStrictEqual_message ?R lockBumped lock0 msg_out_of_sync
             = msg_out_of_sync @ [CHR 0x0A] @ diffBumped"
    by (simp add: repo_def)
  have dl: "driftLines ?R (deepStrictEqual_message ?R lockBumped lock0 msg_out_of_sync)
              = [addedLine, removedLine]"
    by (simp only: m driftLines_bumped)
  from o ne(3) dl r' r out_of_sync_has_no_diff_line show ?thesis by (intro conjI)
qed

text \<open>
  C1 holds in strict mode only (\<open>strict_mode_tolerates_peer_noise\<close>). At this input the
  regeneration adds a \<open>peer: true\<close> line and nothing else, so no line of the diff counts
  as drift. Strict mode tolerates the difference and ends in sync. Warn mode never
  reaches the \<open>catch\<close> clause that filters the diff: \<open>checkDeep\<close> records the
  out-of-sync issue and the script exits with the drift code.
\<close>

theorem warn_mode_reports_peer_noise:
  "\<not> isDeepStrictEqual (repo tracked tracked lockPeer manifest0 diffPeer) lockPeer lock0
   \<and> driftLines (repo tracked tracked lockPeer manifest0 diffPeer)
        (deepStrictEqual_message (repo tracked tracked lockPeer manifest0 diffPeer)
           lockPeer lock0 msg_out_of_sync) = []
   \<and> fst (run strict (repo tracked tracked lockPeer manifest0 diffPeer) False initial) = Inr []
   \<and> fst (main strict (repo tracked tracked lockPeer manifest0 diffPeer) False) = Completed
   \<and> fst (run warnOnly (repo tracked tracked lockPeer manifest0 diffPeer) False initial)
       = Inr [msg_out_of_sync]
   \<and> fst (main warnOnly (repo tracked tracked lockPeer manifest0 diffPeer) False)
       = ProcessExit EXIT_DRIFT"
proof -
  let ?R = "repo tracked tracked lockPeer manifest0 diffPeer"
  let ?A = "repoAnswers tracked tracked lockPeer manifest0"
  have o: "warn warnOnly" "\<not> warn strict" by (simp_all add: warnOnly_def strict_def)
  have e: "isDeepStrictEqual ?R (actualPackage ?A) (expectedPackage ?A)"
    by (simp add: repo_def repoAnswers_def)
  have ne: "\<not> isDeepStrictEqual ?R (actualLockfile ?A) (expectedLockfile ?A)"
           "\<not> isDeepStrictEqual ?R lockPeer lock0"
    by (simp_all add: repo_def repoAnswers_def lockPeer_def lock0_def)
  have gi: "guardIssues warnOnly ?A = []" "guardIssues strict ?A = []"
    by (simp_all add: guardIssues_def repoAnswers_def tracked_def)
  have m: "deepStrictEqual_message ?R lockPeer lock0 msg_out_of_sync
             = msg_out_of_sync @ [CHR 0x0A] @ diffPeer"
          "deepStrictEqual_message ?R (actualLockfile ?A) (expectedLockfile ?A) msg_out_of_sync
             = msg_out_of_sync @ [CHR 0x0A] @ diffPeer"
    by (simp_all add: repo_def)
  have dl: "driftLines ?R (deepStrictEqual_message ?R lockPeer lock0 msg_out_of_sync) = []"
           "driftLines ?R (deepStrictEqual_message ?R (actualLockfile ?A) (expectedLockfile ?A)
              msg_out_of_sync) = []"
    by (simp_all only: m driftLines_peer)
  note s = strict_mode_tolerates_peer_noise[OF repo_answered o(2) gi(2) e ne(1) dl(2)]
  have rw: "fst (run warnOnly ?R False initial) = Inr [msg_out_of_sync]"
    using run_warn[OF repo_answered o(1) e] ne(1) by (simp add: gi)
  have mw: "fst (main warnOnly ?R False) = ProcessExit EXIT_DRIFT"
    using main_Inr[OF rw] o(1) by (simp add: report_exit)
  from ne(2) dl(1) s rw mw show ?thesis by (intro conjI)
qed

end
